theory Spec2Isabelle
  imports Complex_Main "HOL-Library.Word"
begin

section \<open>Python values used by scripts/xrp\_simulator.py\<close>

text \<open>
  The script is a Python class \<open>XRPConstructionSimulator\<close> whose methods talk to the XRP
  Ledger through the xrpl-py SDK, to the testnet faucet through \<open>requests\<close>, to the clock
  and to the file system. None of that is part of the repository, so the model takes all of
  it as a record of functions over an arbitrary world \<open>'w\<close> (below, \<open>env\<close>). Everything
  the script itself does (building transactions, encoding memos, the try/except blocks, the
  checks between steps and every \<open>print\<close>) is modelled as written.

  A Python \<open>str\<close> that is only passed around or printed is an Isabelle \<open>string\<close>. The
  memo, which the script encodes with \<open>memo.encode('utf-8').hex()\<close>, is a list of Unicode
  code points, so that the encoding is part of the model. Python integers are \<open>int\<close>;
  a \<open>Decimal\<close> amount of XRP is a \<open>rat\<close>.
\<close>

type_synonym byte = "8 word"
type_synonym pystr = "nat list"

text \<open>
  An exception is either caught by \<open>except Exception\<close> (\<open>Exception\<close> and its subclasses) or
  not (\<open>KeyboardInterrupt\<close>, \<open>SystemExit\<close>: \<open>BaseException\<close> only). The string names it.
\<close>

datatype exn = Exception string | BaseException string

definition codepoints :: "string \<Rightarrow> pystr" where
  "codepoints s = map of_char s"

subsection \<open>\<open>str.encode('utf-8')\<close> and \<open>bytes.hex()\<close>\<close>

text \<open>
  \<open>utf8_char\<close> is the UTF-8 encoding of one code point, with the shifts written as
  divisions by 64. The strict error handler of \<open>encode\<close> raises \<open>UnicodeEncodeError\<close> on a
  surrogate (U+D800 to U+DFFF).
\<close>

definition utf8_char :: "nat \<Rightarrow> exn + byte list" where
  "utf8_char c =
     (if c < 0x80 then Inr [of_nat c]
      else if c < 0x800 then Inr [of_nat (0xC0 + c div 64), of_nat (0x80 + c mod 64)]
      else if 0xD800 \<le> c \<and> c < 0xE000 then Inl (Exception ''UnicodeEncodeError'')
      else if c < 0x10000 then
        Inr [of_nat (0xE0 + c div 64 div 64), of_nat (0x80 + c div 64 mod 64),
             of_nat (0x80 + c mod 64)]
      else
        Inr [of_nat (0xF0 + c div 64 div 64 div 64), of_nat (0x80 + c div 64 div 64 mod 64),
             of_nat (0x80 + c div 64 mod 64), of_nat (0x80 + c mod 64)])"

fun encode_utf8 :: "pystr \<Rightarrow> exn + byte list" where
  "encode_utf8 [] = Inr []"
| "encode_utf8 (c # cs) =
     (case utf8_char c of
        Inl e \<Rightarrow> Inl e
      | Inr bs \<Rightarrow> (case encode_utf8 cs of Inl e \<Rightarrow> Inl e | Inr r \<Rightarrow> Inr (bs @ r)))"

definition hexdigit :: "nat \<Rightarrow> char" where
  "hexdigit n = ''0123456789abcdef'' ! n"

definition hex :: "byte list \<Rightarrow> string" where
  "hex bs = concat (map (\<lambda>b. [hexdigit (unat b div 16), hexdigit (unat b mod 16)]) bs)"

text \<open>\<open>s.encode('utf-8').hex()\<close>, the expression of lines 94, 95, 146 and 147.\<close>

definition encode_hex :: "pystr \<Rightarrow> exn + string" where
  "encode_hex s = (case encode_utf8 s of Inl e \<Rightarrow> Inl e | Inr bs \<Rightarrow> Inr (hex bs))"

subsection \<open>Decoders, for the round-trip property\<close>

text \<open>
  The script never decodes a memo. The two decoders below follow the words of the
  round-trip property: \<open>fromhex\<close> is \<open>bytes.fromhex\<close>, \<open>decode_utf8\<close> is
  \<open>bytes.decode('utf-8')\<close> on the output of the encoder.
\<close>

definition unhexdigit :: "char \<Rightarrow> nat option" where
  "unhexdigit c = map_of (zip ''0123456789abcdefABCDEF'' ([0..<16] @ [10..<16])) c"

fun fromhex :: "string \<Rightarrow> byte list option" where
  "fromhex [] = Some []"
| "fromhex [c] = None"
| "fromhex (c # d # s) =
     (case (unhexdigit c, unhexdigit d, fromhex s) of
        (Some h, Some l, Some bs) \<Rightarrow> Some (of_nat (16 * h + l) # bs)
      | _ \<Rightarrow> None)"

definition seq_len :: "byte \<Rightarrow> nat" where
  "seq_len b =
     (let n = unat b in if n < 0x80 then 0 else if n < 0xE0 then 1 else if n < 0xF0 then 2 else 3)"

definition seq_value :: "byte \<Rightarrow> byte list \<Rightarrow> nat" where
  "seq_value b bs =
     (let n = unat b in
      if n < 0x80 then n
      else foldl (\<lambda>a x. a * 64 + (unat x - 0x80))
             (if n < 0xE0 then n - 0xC0 else if n < 0xF0 then n - 0xE0 else n - 0xF0) bs)"

function decode_utf8 :: "byte list \<Rightarrow> pystr option" where
  "decode_utf8 [] = Some []"
| "decode_utf8 (b # bs) =
     (if length bs < seq_len b then None
      else case decode_utf8 (drop (seq_len b) bs) of
             None \<Rightarrow> None
           | Some cs \<Rightarrow> Some (seq_value b (take (seq_len b) bs) # cs))"
  by pat_completeness auto
termination
  by (relation "measure length") auto

definition decode_hex :: "string \<Rightarrow> pystr option" where
  "decode_hex s = (case fromhex s of None \<Rightarrow> None | Some bs \<Rightarrow> decode_utf8 bs)"

text \<open>The elements of a Python \<open>str\<close> are code points, below 0x110000.\<close>

definition is_str :: "pystr \<Rightarrow> bool" where
  "is_str s = list_all (\<lambda>c. c < 0x110000) s"

section \<open>Wallets, transactions and responses of the SDK\<close>

record Wallet =
  classic_address :: string
  seed :: string

record Memo =
  MemoData :: string
  MemoType :: string

text \<open>
  \<open>Payment(account, destination, amount)\<close> and \<open>EscrowCreate(account, destination, amount,
  finish_after)\<close>: the fields the script sets; \<open>memos\<close> is \<open>None\<close> in what the constructor
  returns. The SDK's validation of the field values is not part of the repository: the
  constructors are total here.
\<close>

record Payment =
  account :: string
  destination :: string
  amount :: string
  memos :: "Memo list option"

record EscrowCreate = Payment +
  finish_after :: int

datatype tx = PaymentTx Payment | EscrowCreateTx EscrowCreate

text \<open>
  \<open>tx.memos = [...]\<close>, lines 96 and 148. The SDK declares \<open>Payment\<close> and
  \<open>EscrowCreate\<close> as frozen dataclasses, so an assignment to a field of an instance raises
  \<open>dataclasses.FrozenInstanceError\<close> (an \<open>AttributeError\<close>), whatever the value.
\<close>

definition set_memos :: "'a Payment_scheme \<Rightarrow> Memo list \<Rightarrow> exn + 'a Payment_scheme" where
  "set_memos tx ms = Inl (Exception ''FrozenInstanceError'')"

text \<open>
  What the script reads of \<open>response.result\<close>:
  \<open>result.get('meta', {}).get('TransactionResult')\<close>, \<open>result['hash']\<close> (a missing key raises
  \<open>KeyError\<close>) and \<open>result.get('validated', False)\<close>.
\<close>

record response =
  TransactionResult :: "string option"
  hash :: "string option"
  validated :: "bool option"

section \<open>Console output\<close>

text \<open>
  One \<open>print\<close> call is a list of fragments: the literal text of the f-string (as the UTF-8
  bytes that reach the terminal) and the values interpolated into it.
\<close>

datatype pyval =
  PyNone
  | PyStr string
  | PyInt int
  | PyBool bool
  | PyDecimal rat
  | PyDateTime int
  | PyResult response
  | PyExc exn

datatype frag = Lit string | Fmt pyval

definition NL :: string where "NL = [CHR 0x0A]"
definition LINK_SYMBOL :: string where "LINK_SYMBOL = [CHR 0xF0, CHR 0x9F, CHR 0x94, CHR 0x97]"
definition CHECK_MARK :: string where "CHECK_MARK = [CHR 0xE2, CHR 0x9C, CHR 0x85]"
definition WARNING_SIGN :: string where
  "WARNING_SIGN = [CHR 0xE2, CHR 0x9A, CHR 0xA0, CHR 0xEF, CHR 0xB8, CHR 0x8F]"
definition MONEY_BAG :: string where "MONEY_BAG = [CHR 0xF0, CHR 0x9F, CHR 0x92, CHR 0xB0]"
definition CROSS_MARK :: string where "CROSS_MARK = [CHR 0xE2, CHR 0x9D, CHR 0x8C]"
definition BANKNOTE :: string where "BANKNOTE = [CHR 0xF0, CHR 0x9F, CHR 0x92, CHR 0xB5]"
definition OUTBOX_TRAY :: string where "OUTBOX_TRAY = [CHR 0xF0, CHR 0x9F, CHR 0x93, CHR 0xA4]"
definition LOCK :: string where "LOCK = [CHR 0xF0, CHR 0x9F, CHR 0x94, CHR 0x92]"
definition BUILDING_CONSTRUCTION :: string where
  "BUILDING_CONSTRUCTION = [CHR 0xF0, CHR 0x9F, CHR 0x8F, CHR 0x97, CHR 0xEF, CHR 0xB8, CHR 0x8F]"
definition CLIPBOARD :: string where "CLIPBOARD = [CHR 0xF0, CHR 0x9F, CHR 0x93, CHR 0x8B]"
definition BAR_CHART :: string where "BAR_CHART = [CHR 0xF0, CHR 0x9F, CHR 0x93, CHR 0x8A]"
definition MAGNIFYING_GLASS :: string where
  "MAGNIFYING_GLASS = [CHR 0xF0, CHR 0x9F, CHR 0x94, CHR 0x8D]"
definition FLOPPY_DISK :: string where "FLOPPY_DISK = [CHR 0xF0, CHR 0x9F, CHR 0x92, CHR 0xBE]"

definition TESTNET_URL :: string where
  "TESTNET_URL = ''https://s.altnet.rippletest.net:51234''"

definition RIPPLE_EPOCH :: int where
  "RIPPLE_EPOCH = 946684800"

section \<open>The environment and the state of a run\<close>

type_synonym wallet_data = "(string \<times> (string \<times> string) list) list"

text \<open>
  The collaborators, over a world \<open>'w\<close> that only they read and change:
  \<open>Wallet.create()\<close>; \<open>requests.post\<close> to the faucet, giving \<open>response.status_code\<close>;
  \<open>xrpl.account.get_balance\<close>, in drops; the conversions \<open>drops_to_xrp\<close> and
  \<open>xrp_to_drops\<close>; \<open>submit_and_wait\<close>, which signs, submits and waits for validation;
  \<open>int(time.time())\<close> and \<open>time.sleep\<close>; \<open>datetime.fromtimestamp\<close>; and
  \<open>open(path, 'w')\<close> with \<open>json.dump\<close>. Each one that can raise returns \<open>Inl\<close> of the
  exception. \<open>drops_to_xrp\<close> is what the conversion does with the \<open>int\<close> that
  \<open>xrpl.account.get_balance\<close> returns, which is what the script hands it (lines 62 to 63 and
  74 to 75).
\<close>

record 'w env =
  Wallet_create :: "'w \<Rightarrow> Wallet \<times> 'w"
  requests_post :: "string \<Rightarrow> 'w \<Rightarrow> (exn + int) \<times> 'w"
  xrpl_get_balance :: "string \<Rightarrow> 'w \<Rightarrow> (exn + int) \<times> 'w"
  drops_to_xrp :: "int \<Rightarrow> exn + rat"
  xrp_to_drops :: "int \<Rightarrow> exn + string"
  submit_and_wait :: "tx \<Rightarrow> Wallet \<Rightarrow> 'w \<Rightarrow> (exn + response) \<times> 'w"
  time_time :: "'w \<Rightarrow> int"
  time_sleep :: "nat \<Rightarrow> 'w \<Rightarrow> 'w"
  fromtimestamp :: "int \<Rightarrow> exn + pyval"
  json_dump :: "string \<Rightarrow> wallet_data \<Rightarrow> 'w \<Rightarrow> (exn + unit) \<times> 'w"

text \<open>
  The state of a run: the world, what has been printed, and the network calls made so far
  (a history the model keeps, to state which calls a run makes and with which arguments).
\<close>

datatype call =
  FaucetPost string
  | GetBalance string
  | SubmitAndWait tx Wallet

record 'w state =
  world :: 'w
  stdout :: "frag list list"
  network :: "call list"

definition print :: "frag list \<Rightarrow> 'w state \<Rightarrow> 'w state" where
  "print l st = st\<lparr>stdout := stdout st @ [l]\<rparr>"

text \<open>Sequencing: the rest runs unless the first part raised.\<close>

definition then_do ::
  "(exn + 'a) \<times> 's \<Rightarrow> ('a \<Rightarrow> 's \<Rightarrow> (exn + 'b) \<times> 's) \<Rightarrow> (exn + 'b) \<times> 's" where
  "then_do r f = (case r of (Inl e, s) \<Rightarrow> (Inl e, s) | (Inr a, s) \<Rightarrow> f a s)"

text \<open>\<open>try: ... except Exception as e: ...\<close>: the handler runs on an \<open>Exception\<close> only.\<close>

definition try_except ::
  "(exn + 'a) \<times> 's \<Rightarrow> (exn \<Rightarrow> 's \<Rightarrow> (exn + 'a) \<times> 's) \<Rightarrow> (exn + 'a) \<times> 's" where
  "try_except r handler =
     (case r of (Inl (Exception m), s) \<Rightarrow> handler (Exception m) s | _ \<Rightarrow> r)"

definition do_requests_post :: "'w env \<Rightarrow> string \<Rightarrow> 'w state \<Rightarrow> (exn + int) \<times> 'w state" where
  "do_requests_post env address st =
     (case requests_post env address (world st) of
        (r, w) \<Rightarrow> (r, st\<lparr>world := w, network := network st @ [FaucetPost address]\<rparr>))"

definition do_get_balance :: "'w env \<Rightarrow> string \<Rightarrow> 'w state \<Rightarrow> (exn + int) \<times> 'w state" where
  "do_get_balance env address st =
     (case xrpl_get_balance env address (world st) of
        (r, w) \<Rightarrow> (r, st\<lparr>world := w, network := network st @ [GetBalance address]\<rparr>))"

definition do_submit_and_wait ::
  "'w env \<Rightarrow> tx \<Rightarrow> Wallet \<Rightarrow> 'w state \<Rightarrow> (exn + response) \<times> 'w state" where
  "do_submit_and_wait env t wallet st =
     (case submit_and_wait env t wallet (world st) of
        (r, w) \<Rightarrow> (r, st\<lparr>world := w, network := network st @ [SubmitAndWait t wallet]\<rparr>))"

definition do_sleep :: "'w env \<Rightarrow> nat \<Rightarrow> 'w state \<Rightarrow> 'w state" where
  "do_sleep env n st = st\<lparr>world := time_sleep env n (world st)\<rparr>"

definition do_json_dump ::
  "'w env \<Rightarrow> string \<Rightarrow> wallet_data \<Rightarrow> 'w state \<Rightarrow> (exn + unit) \<times> 'w state" where
  "do_json_dump env path d st =
     (case json_dump env path d (world st) of (r, w) \<Rightarrow> (r, st\<lparr>world := w\<rparr>))"

text \<open>\<open>response.result['hash']\<close>: \<open>KeyError\<close> when the key is missing.\<close>

definition result_hash :: "response \<Rightarrow> exn + string" where
  "result_hash r = (case hash r of None \<Rightarrow> Inl (Exception ''KeyError'') | Some h \<Rightarrow> Inr h)"

section \<open>The methods of XRPConstructionSimulator\<close>

text \<open>\<open>__init__\<close>, lines 32 to 34.\<close>

definition init :: "'w state \<Rightarrow> 'w state" where
  "init st =
     print [Lit (LINK_SYMBOL @ '' Connected to XRPL Testnet: ''), Fmt (PyStr TESTNET_URL)] st"

text \<open>\<open>create_wallet\<close>, lines 36 to 43.\<close>

definition create_wallet :: "'w env \<Rightarrow> string \<Rightarrow> 'w state \<Rightarrow> Wallet \<times> 'w state" where
  "create_wallet env label st =
     (case Wallet_create env (world st) of
        (wallet, w) \<Rightarrow>
          (wallet,
           fold print
             [[Lit (NL @ CHECK_MARK @ '' Created ''), Fmt (PyStr label)],
              [Lit ''   Address: '', Fmt (PyStr (classic_address wallet))],
              [Lit ''   Seed: '', Fmt (PyStr (seed wallet))],
              [Lit (''   '' @ WARNING_SIGN @ ''  SAVE THIS SEED - IT WILL NOT BE SHOWN AGAIN'')]]
             (st\<lparr>world := w\<rparr>)))"

text \<open>\<open>fund_wallet\<close>, lines 45 to 70.\<close>

definition fund_wallet :: "'w env \<Rightarrow> Wallet \<Rightarrow> 'w state \<Rightarrow> (exn + bool) \<times> 'w state" where
  "fund_wallet env wallet st0 =
     (let st1 = print [Lit (NL @ MONEY_BAG @ '' Funding wallet ''),
                       Fmt (PyStr (classic_address wallet)), Lit ''...''] st0
      in try_except
           (then_do (do_requests_post env (classic_address wallet) st1) (\<lambda>status_code st2.
              if status_code = 200 then
                then_do (do_get_balance env (classic_address wallet) (do_sleep env 4 st2))
                  (\<lambda>balance st3.
                then_do (drops_to_xrp env balance, st3) (\<lambda>xrp st4.
                  (Inr True,
                   print [Lit (''   '' @ CHECK_MARK @ '' Funded! Balance: ''),
                          Fmt (PyDecimal xrp), Lit '' XRP''] st4)))
              else
                (Inr False,
                 print [Lit (''   '' @ CROSS_MARK @ '' Faucet request failed: ''),
                        Fmt (PyInt status_code)] st2)))
           (\<lambda>e st.
              (Inr False,
               print [Lit (''   '' @ CROSS_MARK @ '' Funding failed: ''), Fmt (PyExc e)] st)))"

text \<open>\<open>get_balance\<close>, lines 72 to 77.\<close>

definition get_balance :: "'w env \<Rightarrow> Wallet \<Rightarrow> 'w state \<Rightarrow> (exn + rat) \<times> 'w state" where
  "get_balance env wallet st0 =
     then_do (do_get_balance env (classic_address wallet) st0) (\<lambda>balance_drops st1.
     then_do (drops_to_xrp env balance_drops, st1) (\<lambda>balance_xrp st2.
       (Inr balance_xrp,
        print [Lit (BANKNOTE @ '' Balance for ''), Fmt (PyStr (classic_address wallet)),
               Lit '': '', Fmt (PyDecimal balance_xrp), Lit '' XRP''] st2)))"

text \<open>
  The transaction \<open>send_payment\<close> builds, lines 85 to 101: \<open>Payment(...)\<close> with the amount
  converted by \<open>xrp_to_drops\<close>, then, when \<open>memo\<close> is truthy (a non-empty string), the two
  encodings and the assignment to \<open>payment_tx.memos\<close>.
\<close>

definition payment_tx :: "'w env \<Rightarrow> Wallet \<Rightarrow> string \<Rightarrow> int \<Rightarrow> pystr \<Rightarrow> exn + Payment" where
  "payment_tx env from_wallet to_address amount_xrp memo =
     (case xrp_to_drops env amount_xrp of
        Inl e \<Rightarrow> Inl e
      | Inr drops \<Rightarrow>
          (let tx = \<lparr>account = classic_address from_wallet, destination = to_address,
                     amount = drops, memos = None\<rparr>
           in if memo \<noteq> [] then
                (case encode_hex memo of
                   Inl e \<Rightarrow> Inl e
                 | Inr memo_data \<Rightarrow>
                     (case encode_hex (codepoints ''construction-payment'') of
                        Inl e \<Rightarrow> Inl e
                      | Inr memo_type \<Rightarrow>
                          set_memos tx [\<lparr>MemoData = memo_data, MemoType = memo_type\<rparr>]))
              else Inr tx))"

text \<open>\<open>send_payment\<close>, lines 79 to 121.\<close>

definition send_payment ::
  "'w env \<Rightarrow> Wallet \<Rightarrow> string \<Rightarrow> int \<Rightarrow> pystr \<Rightarrow> 'w state \<Rightarrow> (exn + string option) \<times> 'w state"
  where
  "send_payment env from_wallet to_address amount_xrp memo st0 =
     (let st1 = fold print
                  [[Lit (NL @ OUTBOX_TRAY @ '' Sending ''), Fmt (PyInt amount_xrp), Lit '' XRP...''],
                   [Lit ''   From: '', Fmt (PyStr (classic_address from_wallet))],
                   [Lit ''   To: '', Fmt (PyStr to_address)]] st0
      in then_do (payment_tx env from_wallet to_address amount_xrp memo, st1) (\<lambda>payment st2.
           try_except
             (then_do (do_submit_and_wait env (PaymentTx payment) from_wallet st2)
                (\<lambda>response st3.
                   if TransactionResult response = Some ''tesSUCCESS'' then
                     then_do (result_hash response, st3) (\<lambda>tx_hash st4.
                     then_do
                       (get_balance env from_wallet
                          (fold print
                             [[Lit (''   '' @ CHECK_MARK @ '' Payment successful!'')],
                              [Lit ''   Hash: '', Fmt (PyStr tx_hash)],
                              [Lit ''   Validated: '',
                               Fmt (PyBool (case validated response of
                                              None \<Rightarrow> False | Some v \<Rightarrow> v))]] st4))
                       (\<lambda>_ st5. (Inr (Some tx_hash), st5)))
                   else
                     (Inr None,
                      print [Lit (''   '' @ CROSS_MARK @ '' Payment failed: ''),
                             Fmt (PyResult response)] st3)))
             (\<lambda>e st.
                (Inr None,
                 print [Lit (''   '' @ CROSS_MARK @ '' Payment error: ''), Fmt (PyExc e)] st))))"

text \<open>
  The transaction \<open>create_escrow\<close> builds, lines 130 to 153, from the clock value read at
  line 133: \<open>finish_after\<close> is computed first, with no check of \<open>days_until_release\<close>.
\<close>

definition escrow_tx ::
  "'w env \<Rightarrow> int \<Rightarrow> Wallet \<Rightarrow> string \<Rightarrow> int \<Rightarrow> int \<Rightarrow> pystr \<Rightarrow> exn + EscrowCreate" where
  "escrow_tx env current_time from_wallet to_address amount_xrp days_until_release memo =
     (let finish = current_time + (days_until_release * 24 * 60 * 60) - RIPPLE_EPOCH
      in case xrp_to_drops env amount_xrp of
           Inl e \<Rightarrow> Inl e
         | Inr drops \<Rightarrow>
             (let tx = \<lparr>account = classic_address from_wallet, destination = to_address,
                        amount = drops, memos = None, finish_after = finish\<rparr>
              in if memo \<noteq> [] then
                   (case encode_hex memo of
                      Inl e \<Rightarrow> Inl e
                    | Inr memo_data \<Rightarrow>
                        (case encode_hex (codepoints ''construction-escrow'') of
                           Inl e \<Rightarrow> Inl e
                         | Inr memo_type \<Rightarrow>
                             set_memos tx [\<lparr>MemoData = memo_data, MemoType = memo_type\<rparr>]))
                 else Inr tx))"

text \<open>\<open>create_escrow\<close>, lines 123 to 170.\<close>

definition create_escrow ::
  "'w env \<Rightarrow> Wallet \<Rightarrow> string \<Rightarrow> int \<Rightarrow> int \<Rightarrow> pystr \<Rightarrow> 'w state
     \<Rightarrow> (exn + string option) \<times> 'w state" where
  "create_escrow env from_wallet to_address amount_xrp days_until_release memo st0 =
     (let st1 = fold print
                  [[Lit (NL @ LOCK @ '' Creating escrow for ''), Fmt (PyInt amount_xrp),
                    Lit '' XRP...''],
                   [Lit ''   From: '', Fmt (PyStr (classic_address from_wallet))],
                   [Lit ''   To: '', Fmt (PyStr to_address)],
                   [Lit ''   Release after: '', Fmt (PyInt days_until_release), Lit '' days'']]
                  st0
      in then_do
           (escrow_tx env (time_time env (world st1)) from_wallet to_address amount_xrp
              days_until_release memo, st1)
           (\<lambda>escrow st2.
              try_except
                (then_do (do_submit_and_wait env (EscrowCreateTx escrow) from_wallet st2)
                   (\<lambda>response st3.
                      if TransactionResult response = Some ''tesSUCCESS'' then
                        then_do (result_hash response, st3) (\<lambda>tx_hash st4.
                        then_do
                          (fromtimestamp env (finish_after escrow + RIPPLE_EPOCH),
                           fold print
                             [[Lit (''   '' @ CHECK_MARK @ '' Escrow created!'')],
                              [Lit ''   Hash: '', Fmt (PyStr tx_hash)]] st4)
                          (\<lambda>locked_until st5.
                             (Inr (Some tx_hash),
                              print [Lit ''   Funds locked until: '', Fmt locked_until] st5)))
                      else
                        (Inr None,
                         print [Lit (''   '' @ CROSS_MARK @ '' Escrow creation failed: ''),
                                Fmt (PyResult response)] st3)))
                (\<lambda>e st.
                   (Inr None,
                    print [Lit (''   '' @ CROSS_MARK @ '' Escrow error: ''), Fmt (PyExc e)] st))))"

text \<open>\<open>not h\<close> for a returned hash: true for \<open>None\<close> and for the empty string.\<close>

definition falsy :: "string option \<Rightarrow> bool" where
  "falsy h = (case h of None \<Rightarrow> True | Some s \<Rightarrow> s = [])"

definition hash_val :: "string option \<Rightarrow> pyval" where
  "hash_val h = (case h of None \<Rightarrow> PyNone | Some s \<Rightarrow> PyStr s)"

definition rule_line :: "frag list" where
  "rule_line = [Lit (replicate 60 (CHR ''=''))]"

definition nl_rule_line :: "frag list" where
  "nl_rule_line = [Lit (NL @ replicate 60 (CHR ''=''))]"

text \<open>\<open>simulate_construction_payment_flow\<close>, lines 172 to 270.\<close>

definition simulate_construction_payment_flow ::
  "'w env \<Rightarrow> 'w state \<Rightarrow> (exn + unit) \<times> 'w state" where
  "simulate_construction_payment_flow env st0 =
     (let st1 = fold print
                  [nl_rule_line,
                   [Lit (BUILDING_CONSTRUCTION @ ''  CONSTRUCTION PAYMENT FLOW SIMULATION'')],
                   rule_line,
                   [Lit (NL @ CLIPBOARD @ '' Step 1: Creating Project Wallets'')]] st0
      in case create_wallet env ''Owner Wallet'' st1 of (owner_wallet, st2) \<Rightarrow>
         case create_wallet env ''General Contractor Wallet'' st2 of (gc_wallet, st3) \<Rightarrow>
         case create_wallet env ''Subcontractor Wallet'' st3 of (sub_wallet, st4) \<Rightarrow>
         then_do
           (fund_wallet env owner_wallet
              (print [Lit (NL @ CLIPBOARD
                             @ '' Step 2: Funding Owner Wallet from Testnet Faucet'')] st4))
           (\<lambda>funded st5.
         if \<not> funded then
           (Inr (),
            print [Lit (CROSS_MARK @ '' Simulation failed - could not fund owner wallet'')] st5)
         else
         then_do
           (create_escrow env owner_wallet (classic_address gc_wallet) 50 7
              (codepoints ''Project #2025-001: Foundation Complete - $100,000 USD'')
              (print [Lit (NL @ CLIPBOARD
                   @ '' Step 3: Owner Creates Escrow for GC (Foundation Milestone)'')] st5))
           (\<lambda>escrow_hash st6.
         if falsy escrow_hash then
           (Inr (),
            print [Lit (CROSS_MARK @ '' Simulation failed - could not create escrow'')] st6)
         else
         then_do
           (send_payment env owner_wallet (classic_address gc_wallet) 25
              (codepoints ''Project #2025-001: Progress Payment #1'')
              (print [Lit (NL @ CLIPBOARD
                   @ '' Step 4: Owner Pays GC (Direct Payment - No Escrow)'')] st6))
           (\<lambda>gc_payment_hash st7.
         then_do
           (send_payment env gc_wallet (classic_address sub_wallet) 10
              (codepoints ''Project #2025-001: Concrete Work - Division 03'')
              (print [Lit (NL @ CLIPBOARD @ '' Step 5: GC Pays Subcontractor'')]
                 (do_sleep env 2 st7)))
           (\<lambda>sub_payment_hash st8.
         then_do
           (get_balance env owner_wallet
              (fold print [nl_rule_line, [Lit (MONEY_BAG @ '' FINAL BALANCES'')], rule_line] st8))
           (\<lambda>_ st9.
         then_do (get_balance env gc_wallet st9) (\<lambda>_ st10.
         then_do (get_balance env sub_wallet st10) (\<lambda>_ st11.
         then_do
           (do_json_dump env ''simulation_wallets.json''
              [(''owner'', [(''address'', classic_address owner_wallet),
                            (''seed'', seed owner_wallet)]),
               (''gc'', [(''address'', classic_address gc_wallet), (''seed'', seed gc_wallet)]),
               (''subcontractor'', [(''address'', classic_address sub_wallet),
                                    (''seed'', seed sub_wallet)])]
              (fold print
                 [nl_rule_line,
                  [Lit (CHECK_MARK @ '' SIMULATION COMPLETE'')],
                  rule_line,
                  [Lit (NL @ BAR_CHART @ '' Transaction Summary:'')],
                  [Lit ''   Escrow Created: '', Fmt (hash_val escrow_hash)],
                  [Lit ''   GC Payment: '', Fmt (hash_val gc_payment_hash)],
                  [Lit ''   Subcontractor Payment: '', Fmt (hash_val sub_payment_hash)],
                  [Lit (NL @ MAGNIFYING_GLASS
                          @ '' View transactions on XRPL Testnet Explorer:'')],
                  [Lit ''   https://testnet.xrpl.org/'']] st11))
           (\<lambda>_ st12.
              (Inr (),
               fold print
                 [[Lit (NL @ FLOPPY_DISK @ '' Wallet data saved to: simulation_wallets.json'')],
                  [Lit (''   '' @ WARNING_SIGN
                          @ ''  KEEP THIS FILE SECURE - Contains wallet seeds!'')]] st12))))))))))"

text \<open>\<open>main\<close>, lines 272 to 275.\<close>

definition main :: "'w env \<Rightarrow> 'w state \<Rightarrow> (exn + unit) \<times> 'w state" where
  "main env st = simulate_construction_payment_flow env (init st)"

section \<open>An in-memory ledger\<close>

text \<open>
  Modelled from the spec: the ledger network, the faucet, the clock and the file system are
  outside the repository; the spec asks for "an in-memory test-double variant" of the
  capability set {submit, awaitFinality, getBalance}. This one keeps a balance in drops for
  every address. A committed payment moves the amount from the payer to the destination; a
  committed escrow takes the amount out of the payer's available balance and records the
  release time; the fee of a committed transaction is subtracted from the payer; an
  operation the payer cannot fund is rejected with a non-success outcome code
  (\<open>RejectedByNetwork\<close>, "insufficient balance"). The faucet credits \<open>grant\<close> drops and
  answers 200. A submission whose number is in \<open>lost\<close> loses the connection during the
  wait and raises (\<open>FinalityUnknown\<close>). One XRP is 1000000 drops, written in decimal.

  The conversions and \<open>datetime.fromtimestamp\<close> are not the ledger's: they behave as
  xrpl-py and Python have them. \<open>drops_to_xrp\<close> accepts a \<open>str\<close> only and raises
  \<open>TypeError\<close> on the \<open>int\<close> it is handed; \<open>xrp_to_drops\<close> raises \<open>XRPRangeException\<close> on a
  negative amount and on more than 100000000000 XRP; \<open>fromtimestamp\<close> raises outside the
  years 1 to 9999.
\<close>

text \<open>
  Modelled from the spec: "Amount: integer minor-unit value". The amount field of a
  transaction is the decimal string of a number of drops; these two functions write and
  read it.
\<close>

definition digit :: "nat \<Rightarrow> char" where
  "digit n = ''0123456789'' ! n"

fun show_nat :: "nat \<Rightarrow> string" where
  "show_nat n = (if n < 10 then [digit n] else show_nat (n div 10) @ [digit (n mod 10)])"

declare show_nat.simps [simp del]

definition digit_val :: "char \<Rightarrow> nat option" where
  "digit_val c = map_of (zip ''0123456789'' [0..<10]) c"

fun parse_digits :: "nat \<Rightarrow> string \<Rightarrow> nat option" where
  "parse_digits acc [] = Some acc"
| "parse_digits acc (c # cs) =
     (case digit_val c of None \<Rightarrow> None | Some d \<Rightarrow> parse_digits (10 * acc + d) cs)"

definition parse_nat :: "string \<Rightarrow> nat option" where
  "parse_nat s = (if s = [] then None else parse_digits 0 s)"

text \<open>
  Modelled from the spec: the state of the ledger network and of the other collaborators:
  the balance of every address, the escrows held (owner, destination, amount, release
  time), the clock, the wallets \<open>Wallet.create()\<close> will hand out, the number of
  submissions so far and the files written.
\<close>

record ledger =
  balance_of :: "string \<Rightarrow> int"
  escrowed :: "(string \<times> string \<times> int \<times> int) list"
  clock :: int
  new_wallets :: "Wallet list"
  sent :: nat
  saved :: "(string \<times> wallet_data) list"

definition tx_payment :: "tx \<Rightarrow> Payment" where
  "tx_payment t =
     (case t of
        PaymentTx p \<Rightarrow> p
      | EscrowCreateTx q \<Rightarrow>
          \<lparr>account = account q, destination = destination q, amount = amount q,
           memos = memos q\<rparr>)"

definition tx_id :: "tx \<Rightarrow> string" where
  "tx_id t =
     (case t of
        PaymentTx p \<Rightarrow> ''PAY-'' @ account p @ ''-'' @ destination p @ ''-'' @ amount p
      | EscrowCreateTx q \<Rightarrow> ''ESC-'' @ account q @ ''-'' @ destination q @ ''-'' @ amount q)"

text \<open>
  Modelled from the spec: what a committed operation does to the balances. The payer loses
  the amount and the fee; a payment credits the destination; an escrow holds the amount
  until its release time ("available (non-escrowed) balance reduced").
\<close>

definition commit :: "int \<Rightarrow> tx \<Rightarrow> int \<Rightarrow> ledger \<Rightarrow> ledger" where
  "commit fee t n L =
     (let p = tx_payment t;
          b = balance_of L;
          b1 = b(account p := b (account p) - n - fee)
      in case t of
           PaymentTx _ \<Rightarrow> L\<lparr>balance_of := b1(destination p := b1 (destination p) + n)\<rparr>
         | EscrowCreateTx q \<Rightarrow>
             L\<lparr>balance_of := b1,
               escrowed := escrowed L @ [(account p, destination p, n, finish_after q)]\<rparr>)"

text \<open>
  Modelled from the spec: \<open>submit\<close> followed by \<open>awaitFinality\<close>. The wait raises when the
  connection is lost; an amount that is no number or that the payer cannot fund is rejected
  with a non-success outcome code; otherwise the operation commits with \<open>tesSUCCESS\<close>.
\<close>

definition ledger_submit ::
  "int \<Rightarrow> nat list \<Rightarrow> tx \<Rightarrow> Wallet \<Rightarrow> ledger \<Rightarrow> (exn + response) \<times> ledger" where
  "ledger_submit fee lost t wallet L =
     (let L1 = L\<lparr>sent := Suc (sent L)\<rparr>
      in if sent L \<in> set lost then (Inl (Exception ''FinalityUnknown''), L1)
         else case parse_nat (amount (tx_payment t)) of
                None \<Rightarrow>
                  (Inr \<lparr>TransactionResult = Some ''temBAD_AMOUNT'', hash = None,
                        validated = Some False\<rparr>, L1)
              | Some n \<Rightarrow>
                  if balance_of L (account (tx_payment t)) < int n + fee then
                    (Inr \<lparr>TransactionResult = Some ''tecUNFUNDED'', hash = Some (tx_id t),
                          validated = Some True\<rparr>, L1)
                  else
                    (Inr \<lparr>TransactionResult = Some ''tesSUCCESS'', hash = Some (tx_id t),
                          validated = Some True\<rparr>, commit fee t (int n) L1))"

text \<open>
  Modelled from the spec: the collaborators over this ledger, for a fee per committed
  transaction, a faucet grant and the numbers of the submissions that lose the connection;
  the two conversions and \<open>fromtimestamp\<close> as the SDK and Python have them.
\<close>

definition ledger_env :: "int \<Rightarrow> int \<Rightarrow> nat list \<Rightarrow> ledger env" where
  "ledger_env fee grant lost =
     \<lparr>Wallet_create =
        (\<lambda>L. case new_wallets L of
               [] \<Rightarrow> (\<lparr>classic_address = [], seed = []\<rparr>, L)
             | w # ws \<Rightarrow> (w, L\<lparr>new_wallets := ws\<rparr>)),
      requests_post =
        (\<lambda>a L. (Inr 200, L\<lparr>balance_of := (balance_of L)(a := balance_of L a + grant)\<rparr>)),
      xrpl_get_balance = (\<lambda>a L. (Inr (balance_of L a), L)),
      drops_to_xrp = (\<lambda>d. Inl (Exception ''TypeError'')),
      xrp_to_drops =
        (\<lambda>x. if x < 0 \<or> 100000000000 < x then Inl (Exception ''XRPRangeException'')
              else Inr (show_nat (nat x * 1000000))),
      submit_and_wait = ledger_submit fee lost,
      time_time = clock,
      time_sleep = (\<lambda>n L. L\<lparr>clock := clock L + int n\<rparr>),
      fromtimestamp =
        (\<lambda>t. if t < - 62135596800 \<or> 253402300799 < t then Inl (Exception ''ValueError'')
              else Inr (PyDateTime t)),
      json_dump = (\<lambda>path d L. (Inr (), L\<lparr>saved := saved L @ [(path, d)]\<rparr>))\<rparr>"

text \<open>
  A ledger on which nothing has happened yet, with three wallets for \<open>Wallet.create()\<close> to
  hand out, and the state of a run that starts on it.
\<close>

definition owner0 :: Wallet where
  "owner0 = \<lparr>classic_address = ''rOwner'', seed = ''sEdOwnerSecret''\<rparr>"

definition gc0 :: Wallet where
  "gc0 = \<lparr>classic_address = ''rContractor'', seed = ''sEdContractorSecret''\<rparr>"

definition sub0 :: Wallet where
  "sub0 = \<lparr>classic_address = ''rSubcontractor'', seed = ''sEdSubcontractorSecret''\<rparr>"

definition ledger0 :: "Wallet list \<Rightarrow> ledger" where
  "ledger0 ws =
     \<lparr>balance_of = (\<lambda>a. 0), escrowed = [], clock = 1000000000, new_wallets = ws, sent = 0,
      saved = []\<rparr>"

definition start :: "'w \<Rightarrow> 'w state" where
  "start w = \<lparr>world = w, stdout = [], network = []\<rparr>"

section \<open>Notions the properties are stated with\<close>


text \<open>
  The exception that ends the building of a transaction with a non-empty memo: that of the
  amount conversion, else that of \<open>memo.encode\<close>, else that of the assignment to
  \<open>memos\<close>.
\<close>

definition build_error :: "'w env \<Rightarrow> int \<Rightarrow> pystr \<Rightarrow> exn" where
  "build_error env amount_xrp memo =
     (case xrp_to_drops env amount_xrp of
        Inl e \<Rightarrow> e
      | Inr drops \<Rightarrow>
          (case encode_hex memo of
             Inl e \<Rightarrow> e
           | Inr memo_data \<Rightarrow> Exception ''FrozenInstanceError''))"

text \<open>
  A print with the seed taken out: the line \<open>Seed: ...\<close> of \<open>create_wallet\<close> (line 41)
  without its value, every other print as it is.
\<close>

definition redact :: "frag list \<Rightarrow> frag list" where
  "redact l =
     (case l of
        [Lit t, Fmt v] \<Rightarrow> if t = ''   Seed: '' then [Lit t] else l
      | _ \<Rightarrow> l)"

text \<open>
  Two states of a run that agree on the world, on the network calls made and on everything
  printed but the values of the \<open>Seed: ...\<close> lines.
\<close>

definition same_but_seeds :: "'w state \<Rightarrow> 'w state \<Rightarrow> bool" where
  "same_but_seeds s s' =
     (world s' = world s \<and> network s' = network s \<and>
      map redact (stdout s') = map redact (stdout s))"

section \<open>Properties of the encoders\<close>

lemma unhex_all: "\<forall>n\<in>set [0..<16]. unhexdigit (hexdigit n) = Some n"
  by code_simp

lemma unhex_hex: "n < 16 \<Longrightarrow> unhexdigit (hexdigit n) = Some n"
  using unhex_all by simp

lemma fromhex_hex: "fromhex (hex bs) = Some bs"
proof (induction bs)
  case Nil
  then show ?case by (simp add: hex_def)
next
  case (Cons b bs)
  have d: "unat b div 16 < 16" using unsigned_less [of b, where ?'a = nat] by simp
  have "16 * (unat b div 16) + unat b mod 16 = unat b" by simp
  then have "(of_nat (16 * (unat b div 16) + unat b mod 16) :: byte) = b" by simp
  with Cons d show ?case by (simp add: hex_def unhex_hex)
qed

lemma unat_byte: "n < 256 \<Longrightarrow> unat (of_nat n :: byte) = n"
  by (simp add: unat_of_nat)

lemma decode_1:
  assumes "unat b = c" "c < 0x80"
  shows "decode_utf8 (b # r) = map_option ((#) c) (decode_utf8 r)"
  using assms by (simp add: seq_len_def seq_value_def split: option.splits)

lemma decode_2:
  assumes "unat b1 = 0xC0 + h" "h < 32" "unat b2 = 0x80 + l"
  shows "decode_utf8 (b1 # b2 # r) = map_option ((#) (h * 64 + l)) (decode_utf8 r)"
  using assms by (simp add: seq_len_def seq_value_def split: option.splits)

lemma decode_3:
  assumes "unat b1 = 0xE0 + h" "h < 16" "unat b2 = 0x80 + m" "unat b3 = 0x80 + l"
  shows "decode_utf8 (b1 # b2 # b3 # r) = map_option ((#) ((h * 64 + m) * 64 + l)) (decode_utf8 r)"
  using assms by (simp add: seq_len_def seq_value_def split: option.splits)

lemma decode_4:
  assumes "unat b1 = 0xF0 + h" "h < 16" "unat b2 = 0x80 + m" "unat b3 = 0x80 + l"
    "unat b4 = 0x80 + k"
  shows "decode_utf8 (b1 # b2 # b3 # b4 # r)
         = map_option ((#) (((h * 64 + m) * 64 + l) * 64 + k)) (decode_utf8 r)"
  using assms by (simp add: seq_len_def seq_value_def split: option.splits)

lemma utf8_char_decode:
  assumes "c < 0x110000" "utf8_char c = Inr bs"
  shows "decode_utf8 (bs @ r) = map_option ((#) c) (decode_utf8 r)"
proof -
  consider (a) "c < 0x80" | (b) "0x80 \<le> c" "c < 0x800" | (c) "0x800 \<le> c" "c < 0x10000"
    | (d) "0x10000 \<le> c" "c < 0x110000"
    using assms(1) by linarith
  then show ?thesis
  proof cases
    case a
    then have "bs = [of_nat c]" using assms(2) by (simp add: utf8_char_def)
    moreover have "unat (of_nat c :: byte) = c" by (rule unat_byte) (use a in simp)
    ultimately show ?thesis using decode_1 [OF _ a] by simp
  next
    case b
    then have bs: "bs = [of_nat (0xC0 + c div 64), of_nat (0x80 + c mod 64)]"
      using assms(2) by (simp add: utf8_char_def)
    have h: "c div 64 < 32" using b by simp
    have u1: "unat (of_nat (0xC0 + c div 64) :: byte) = 0xC0 + c div 64"
      by (rule unat_byte) (use h in simp)
    have u2: "unat (of_nat (0x80 + c mod 64) :: byte) = 0x80 + c mod 64"
      by (rule unat_byte) simp
    have v: "c div 64 * 64 + c mod 64 = c" by simp
    show ?thesis unfolding bs append_Cons append_Nil decode_2 [OF u1 h u2] v ..
  next
    case c
    then have bs: "bs = [of_nat (0xE0 + c div 64 div 64), of_nat (0x80 + c div 64 mod 64),
                         of_nat (0x80 + c mod 64)]"
      using assms(2) by (simp add: utf8_char_def split: if_splits)
    have h: "c div 64 div 64 < 16" using c by (simp add: div_mult2_eq [symmetric])
    have u1: "unat (of_nat (0xE0 + c div 64 div 64) :: byte) = 0xE0 + c div 64 div 64"
      by (rule unat_byte) (use h in simp)
    have u2: "unat (of_nat (0x80 + c div 64 mod 64) :: byte) = 0x80 + c div 64 mod 64"
      by (rule unat_byte) simp
    have u3: "unat (of_nat (0x80 + c mod 64) :: byte) = 0x80 + c mod 64"
      by (rule unat_byte) simp
    have v: "(c div 64 div 64 * 64 + c div 64 mod 64) * 64 + c mod 64 = c" by simp
    show ?thesis unfolding bs append_Cons append_Nil decode_3 [OF u1 h u2 u3] v ..
  next
    case d
    then have bs: "bs = [of_nat (0xF0 + c div 64 div 64 div 64),
                         of_nat (0x80 + c div 64 div 64 mod 64),
                         of_nat (0x80 + c div 64 mod 64), of_nat (0x80 + c mod 64)]"
      using assms(2) by (simp add: utf8_char_def split: if_splits)
    have h: "c div 64 div 64 div 64 < 16" using d by (simp add: div_mult2_eq [symmetric])
    have u1: "unat (of_nat (0xF0 + c div 64 div 64 div 64) :: byte)
              = 0xF0 + c div 64 div 64 div 64"
      by (rule unat_byte) (use h in simp)
    have u2: "unat (of_nat (0x80 + c div 64 div 64 mod 64) :: byte)
              = 0x80 + c div 64 div 64 mod 64"
      by (rule unat_byte) simp
    have u3: "unat (of_nat (0x80 + c div 64 mod 64) :: byte) = 0x80 + c div 64 mod 64"
      by (rule unat_byte) simp
    have u4: "unat (of_nat (0x80 + c mod 64) :: byte) = 0x80 + c mod 64"
      by (rule unat_byte) simp
    have v: "((c div 64 div 64 div 64 * 64 + c div 64 div 64 mod 64) * 64 + c div 64 mod 64)
               * 64 + c mod 64 = c"
      by simp
    show ?thesis unfolding bs append_Cons append_Nil decode_4 [OF u1 h u2 u3 u4] v ..
  qed
qed

lemma decode_encode_utf8: "is_str s \<Longrightarrow> encode_utf8 s = Inr bs \<Longrightarrow> decode_utf8 bs = Some s"
proof (induction s arbitrary: bs)
  case Nil
  then show ?case by simp
next
  case (Cons c cs)
  from Cons.prems(2) obtain b r where b: "utf8_char c = Inr b" and r: "encode_utf8 cs = Inr r"
    and bs: "bs = b @ r"
    by (simp split: sum.splits)
  from Cons.prems(1) have c: "c < 0x110000" and cs: "is_str cs" by (simp_all add: is_str_def)
  show ?case unfolding bs utf8_char_decode [OF c b] Cons.IH [OF cs r] by simp
qed

lemma decode_encode_hex: "is_str s \<Longrightarrow> encode_hex s = Inr h \<Longrightarrow> decode_hex h = Some s"
  by (simp add: encode_hex_def decode_hex_def split: sum.splits)
     (auto simp: fromhex_hex decode_encode_utf8)

lemma is_str_codepoints: "is_str (codepoints s)"
proof -
  have "of_char c < (0x110000 :: nat)" for c :: char
    using nat_of_char_less_256 [of c] by linarith
  then show ?thesis by (simp add: is_str_def codepoints_def list_all_iff)
qed

lemmas enc_eval = encode_hex_def utf8_char_def hex_def hexdigit_def codepoints_def

lemma encode_hex_empty: "encode_hex [] = Inr []"
  by (simp add: encode_hex_def hex_def)

section \<open>Properties of the in-memory ledger\<close>

lemma digit_val_all: "\<forall>n\<in>set [0..<10]. digit_val (digit n) = Some n"
  by code_simp

lemma digit_val_digit: "n < 10 \<Longrightarrow> digit_val (digit n) = Some n"
  using digit_val_all by simp

lemma parse_digits_append:
  "parse_digits acc (xs @ ys)
   = (case parse_digits acc xs of None \<Rightarrow> None | Some a \<Rightarrow> parse_digits a ys)"
  by (induction xs arbitrary: acc) (simp_all split: option.splits)

lemma parse_digits_show: "parse_digits 0 (show_nat n) = Some n"
proof (induction n rule: show_nat.induct)
  case (1 n)
  show ?case
  proof (cases "n < 10")
    case True
    then show ?thesis by (simp add: show_nat.simps [of n] digit_val_digit)
  next
    case False
    with 1 have ih: "parse_digits 0 (show_nat (n div 10)) = Some (n div 10)" by simp
    have m: "n mod 10 < 10" by simp
    show ?thesis
      using False
      by (simp add: show_nat.simps [of n] parse_digits_append ih digit_val_digit [OF m])
  qed
qed

lemma show_nat_nonempty: "show_nat n \<noteq> []"
  by (simp add: show_nat.simps [of n])

lemma parse_show: "parse_nat (show_nat n) = Some n"
  by (simp add: parse_nat_def show_nat_nonempty parse_digits_show)

lemma ledger_env_sel [simp]:
  "xrp_to_drops (ledger_env fee grant lost) =
     (\<lambda>x. if x < 0 \<or> 100000000000 < x then Inl (Exception ''XRPRangeException'')
           else Inr (show_nat (nat x * 1000000)))"
  "drops_to_xrp (ledger_env fee grant lost) = (\<lambda>d. Inl (Exception ''TypeError''))"
  "submit_and_wait (ledger_env fee grant lost) = ledger_submit fee lost"
  "time_time (ledger_env fee grant lost) = clock"
  "time_sleep (ledger_env fee grant lost) = (\<lambda>n L. L\<lparr>clock := clock L + int n\<rparr>)"
  "fromtimestamp (ledger_env fee grant lost) =
     (\<lambda>t. if t < - 62135596800 \<or> 253402300799 < t then Inl (Exception ''ValueError'')
          else Inr (PyDateTime t))"
  "xrpl_get_balance (ledger_env fee grant lost) = (\<lambda>a L. (Inr (balance_of L a), L))"
  "requests_post (ledger_env fee grant lost) =
     (\<lambda>a L. (Inr 200, L\<lparr>balance_of := (balance_of L)(a := balance_of L a + grant)\<rparr>))"
  "json_dump (ledger_env fee grant lost) =
     (\<lambda>path d L. (Inr (), L\<lparr>saved := saved L @ [(path, d)]\<rparr>))"
  "Wallet_create (ledger_env fee grant lost) =
     (\<lambda>L. case new_wallets L of
             [] \<Rightarrow> (\<lparr>classic_address = [], seed = []\<rparr>, L)
           | w # ws \<Rightarrow> (w, L\<lparr>new_wallets := ws\<rparr>))"
  by (simp_all add: ledger_env_def)

lemma show_nat_50: "show_nat 50000000 = ''50000000''" by (simp add: show_nat.simps digit_def)
lemma show_nat_25: "show_nat 25000000 = ''25000000''" by (simp add: show_nat.simps digit_def)
lemma show_nat_10: "show_nat 10000000 = ''10000000''" by (simp add: show_nat.simps digit_def)

section \<open>Properties of the methods\<close>

lemma payment_tx_cases:
  "payment_tx env fw to a memo =
     (case xrp_to_drops env a of
        Inl e \<Rightarrow> Inl e
      | Inr drops \<Rightarrow>
          if memo = [] then
            Inr \<lparr>account = classic_address fw, destination = to, amount = drops, memos = None\<rparr>
          else
            (case encode_hex memo of
               Inl e \<Rightarrow> Inl e
             | Inr md \<Rightarrow>
                 (case encode_hex (codepoints ''construction-payment'') of
                    Inl e \<Rightarrow> Inl e
                  | Inr mt \<Rightarrow> Inl (Exception ''FrozenInstanceError''))))"
  unfolding payment_tx_def Let_def set_memos_def
  by (simp split: sum.splits)


lemma escrow_tx_cases:
  "escrow_tx env t fw to a d memo =
     (case xrp_to_drops env a of
        Inl e \<Rightarrow> Inl e
      | Inr drops \<Rightarrow>
          if memo = [] then
            Inr \<lparr>account = classic_address fw, destination = to, amount = drops, memos = None,
                 finish_after = t + d * 24 * 60 * 60 - RIPPLE_EPOCH\<rparr>
          else
            (case encode_hex memo of
               Inl e \<Rightarrow> Inl e
             | Inr md \<Rightarrow>
                 (case encode_hex (codepoints ''construction-escrow'') of
                    Inl e \<Rightarrow> Inl e
                  | Inr mt \<Rightarrow> Inl (Exception ''FrozenInstanceError''))))"
  unfolding escrow_tx_def Let_def set_memos_def
  by (simp split: sum.splits)

lemma print_fields [simp]:
  "world (print l st) = world st"
  "network (print l st) = network st"
  "stdout (print l st) = stdout st @ [l]"
  by (simp_all add: print_def)

lemma then_do_simps [simp]:
  "then_do (Inl e, s) f = (Inl e, s)"
  "then_do (Inr a, s) f = f a s"
  by (simp_all add: then_do_def)

lemma try_except_simps [simp]:
  "try_except (Inl e, s) h =
     (case e of Exception m \<Rightarrow> h e s | BaseException m \<Rightarrow> (Inl e, s))"
  "try_except (Inr a, s) h = (Inr a, s)"
  by (simp_all add: try_except_def split: exn.splits)

lemma create_escrow_network:
  "network (snd (create_escrow env fw to a d memo st)) =
     network st @
       (case escrow_tx env (time_time env (world st)) fw to a d memo of
          Inl e \<Rightarrow> []
        | Inr q \<Rightarrow> [SubmitAndWait (EscrowCreateTx q) fw])"
proof (cases "escrow_tx env (time_time env (world st)) fw to a d memo")
  case (Inl e)
  then show ?thesis by (simp add: create_escrow_def Let_def)
next
  case (Inr q)
  obtain r w where s: "submit_and_wait env (EscrowCreateTx q) fw (world st) = (r, w)"
    by (cases "submit_and_wait env (EscrowCreateTx q) fw (world st)")
  show ?thesis
  proof (cases r)
    case (Inl e)
    then show ?thesis using Inr s
      by (cases e) (simp_all add: create_escrow_def do_submit_and_wait_def Let_def)
  next
    case (Inr resp)
    then show ?thesis using \<open>escrow_tx _ _ _ _ _ _ _ = Inr q\<close> s
      by (cases "hash resp"; cases "fromtimestamp env (finish_after q + RIPPLE_EPOCH)")
         (auto simp: create_escrow_def do_submit_and_wait_def result_hash_def Let_def split: exn.splits)
  qed
qed

subsection \<open>What the two submitting methods return\<close>

lemma send_payment_result:
  "fst (send_payment env fw to a memo st) =
     (case payment_tx env fw to a memo of
        Inl e \<Rightarrow> Inl e
      | Inr p \<Rightarrow>
          (case submit_and_wait env (PaymentTx p) fw (world st) of
             (Inl e, w) \<Rightarrow> (case e of Exception m \<Rightarrow> Inr None | BaseException m \<Rightarrow> Inl e)
           | (Inr resp, w) \<Rightarrow>
               if TransactionResult resp = Some ''tesSUCCESS'' then
                 (case hash resp of
                    None \<Rightarrow> Inr None
                  | Some h \<Rightarrow>
                      (case xrpl_get_balance env (classic_address fw) w of
                         (Inl e, w') \<Rightarrow>
                           (case e of Exception m \<Rightarrow> Inr None | BaseException m \<Rightarrow> Inl e)
                       | (Inr b, w') \<Rightarrow>
                           (case drops_to_xrp env b of
                              Inl e \<Rightarrow>
                                (case e of Exception m \<Rightarrow> Inr None | BaseException m \<Rightarrow> Inl e)
                            | Inr x \<Rightarrow> Inr (Some h))))
               else Inr None))"
  by (simp add: send_payment_def get_balance_def do_submit_and_wait_def do_get_balance_def
      result_hash_def Let_def
      split: sum.splits prod.splits exn.splits option.splits)

lemma create_escrow_result:
  "fst (create_escrow env fw to a d memo st) =
     (case escrow_tx env (time_time env (world st)) fw to a d memo of
        Inl e \<Rightarrow> Inl e
      | Inr q \<Rightarrow>
          (case submit_and_wait env (EscrowCreateTx q) fw (world st) of
             (Inl e, w) \<Rightarrow> (case e of Exception m \<Rightarrow> Inr None | BaseException m \<Rightarrow> Inl e)
           | (Inr resp, w) \<Rightarrow>
               if TransactionResult resp = Some ''tesSUCCESS'' then
                 (case hash resp of
                    None \<Rightarrow> Inr None
                  | Some h \<Rightarrow>
                      (case fromtimestamp env (finish_after q + RIPPLE_EPOCH) of
                         Inl e \<Rightarrow>
                           (case e of Exception m \<Rightarrow> Inr None | BaseException m \<Rightarrow> Inl e)
                       | Inr x \<Rightarrow> Inr (Some h)))
               else Inr None))"
  by (simp add: create_escrow_def do_submit_and_wait_def result_hash_def Let_def
      split: sum.splits prod.splits exn.splits option.splits)

subsection \<open>Running the flow on the in-memory ledger\<close>

lemma parse_nat_50: "parse_nat ''50000000'' = Some 50000000"
  using parse_show [of 50000000] by (simp add: show_nat_50)

lemma parse_nat_25: "parse_nat ''25000000'' = Some 25000000"
  using parse_show [of 25000000] by (simp add: show_nat_25)

lemma parse_nat_10: "parse_nat ''10000000'' = Some 10000000"
  using parse_show [of 10000000] by (simp add: show_nat_10)

lemma rule_head: "replicate 60 c = c # replicate 59 c"
  by (simp add: numeral_eq_Suc)

lemmas glyph_defs = NL_def LINK_SYMBOL_def CHECK_MARK_def WARNING_SIGN_def MONEY_BAG_def
  CROSS_MARK_def BANKNOTE_def OUTBOX_TRAY_def LOCK_def BUILDING_CONSTRUCTION_def CLIPBOARD_def
  BAR_CHART_def MAGNIFYING_GLASS_def FLOPPY_DISK_def rule_line_def nl_rule_line_def rule_head

lemmas run_defs = main_def init_def simulate_construction_payment_flow_def create_wallet_def
  fund_wallet_def get_balance_def send_payment_def create_escrow_def
  do_requests_post_def do_get_balance_def do_submit_and_wait_def
  do_sleep_def do_json_dump_def result_hash_def falsy_def hash_val_def Let_def
  payment_tx_cases escrow_tx_cases enc_eval RIPPLE_EPOCH_def
  ledger_submit_def commit_def tx_payment_def tx_id_def
  ledger0_def start_def owner0_def gc0_def sub0_def show_nat_50 show_nat_25 show_nat_10
  parse_nat_50 parse_nat_25 parse_nat_10 print_def

subsection \<open>A transaction with a memo is never built\<close>

text \<open>
  The assignment to \<open>memos\<close> raises, so with a non-empty memo both builders end in an
  exception, and so do the two methods, before their \<open>try\<close>.
\<close>

lemma tag_payment:
  "encode_hex (codepoints ''construction-payment'')
   = Inr ''636f6e737472756374696f6e2d7061796d656e74''"
  by (simp add: enc_eval)

lemma tag_escrow:
  "encode_hex (codepoints ''construction-escrow'') = Inr ''636f6e737472756374696f6e2d657363726f77''"
  by (simp add: enc_eval)

lemma payment_tx_nonempty:
  "memo \<noteq> [] \<Longrightarrow> payment_tx env fw to a memo = Inl (build_error env a memo)"
  by (simp add: payment_tx_cases build_error_def tag_payment split: sum.splits)

lemma escrow_tx_nonempty:
  "memo \<noteq> [] \<Longrightarrow> escrow_tx env t fw to a d memo = Inl (build_error env a memo)"
  by (simp add: escrow_tx_cases build_error_def tag_escrow split: sum.splits)

lemma send_payment_raises:
  "memo \<noteq> [] \<Longrightarrow>
     send_payment env fw to a memo st =
       (Inl (build_error env a memo),
        fold print
          [[Lit (NL @ OUTBOX_TRAY @ '' Sending ''), Fmt (PyInt a), Lit '' XRP...''],
           [Lit ''   From: '', Fmt (PyStr (classic_address fw))],
           [Lit ''   To: '', Fmt (PyStr to)]] st)"
  by (simp add: send_payment_def payment_tx_nonempty Let_def)

lemma create_escrow_raises:
  "memo \<noteq> [] \<Longrightarrow>
     create_escrow env fw to a d memo st =
       (Inl (build_error env a memo),
        fold print
          [[Lit (NL @ LOCK @ '' Creating escrow for ''), Fmt (PyInt a), Lit '' XRP...''],
           [Lit ''   From: '', Fmt (PyStr (classic_address fw))],
           [Lit ''   To: '', Fmt (PyStr to)],
           [Lit ''   Release after: '', Fmt (PyInt d), Lit '' days'']] st)"
  by (simp add: create_escrow_def escrow_tx_nonempty Let_def)

subsection \<open>What the two submitting methods do after the submission\<close>





lemma send_payment_network:
  "payment_tx env fw to a memo = Inr p \<Longrightarrow>
   \<exists>ns. network (snd (send_payment env fw to a memo st))
           = network st @ SubmitAndWait (PaymentTx p) fw # ns"
proof -
  assume p: "payment_tx env fw to a memo = Inr p"
  obtain r w where s: "submit_and_wait env (PaymentTx p) fw (world st) = (r, w)"
    by (cases "submit_and_wait env (PaymentTx p) fw (world st)")
  show ?thesis
  proof (cases r)
    case (Inl e)
    then show ?thesis using p s
      by (cases e) (simp_all add: send_payment_def do_submit_and_wait_def Let_def)
  next
    case (Inr resp)
    obtain rb w' where b: "xrpl_get_balance env (classic_address fw) w = (rb, w')"
      by (cases "xrpl_get_balance env (classic_address fw) w")
    show ?thesis
    proof (cases rb)
      case (Inl e)
      then show ?thesis using Inr p s b
        by (cases "hash resp"; cases e)
           (auto simp: send_payment_def get_balance_def do_submit_and_wait_def
              do_get_balance_def result_hash_def Let_def)
    next
      case rbv: (Inr bal)
      show ?thesis
      proof (cases "drops_to_xrp env bal")
        case (Inl e)
        then show ?thesis using rbv Inr p s b
          by (cases "hash resp"; cases e)
             (auto simp: send_payment_def get_balance_def do_submit_and_wait_def
                do_get_balance_def result_hash_def Let_def)
      next
        case dx: (Inr x)
        then show ?thesis using rbv Inr p s b
          by (cases "hash resp")
             (auto simp: send_payment_def get_balance_def do_submit_and_wait_def
                do_get_balance_def result_hash_def Let_def)
      qed
    qed
  qed
qed

lemma send_payment_build_error:
  "payment_tx env fw to a memo = Inl e \<Longrightarrow>
   network (snd (send_payment env fw to a memo st)) = network st"
  by (simp add: send_payment_def Let_def)

subsection \<open>Wallet creation and funding\<close>

lemma create_wallet_fields:
  "world (snd (create_wallet env l st)) = snd (Wallet_create env (world st))"
  "network (snd (create_wallet env l st)) = network st"
  "fst (create_wallet env l st) = fst (Wallet_create env (world st))"
  "stdout (snd (create_wallet env l st)) =
     stdout st @
       [[Lit (NL @ CHECK_MARK @ '' Created ''), Fmt (PyStr l)],
        [Lit ''   Address: '',
         Fmt (PyStr (classic_address (fst (Wallet_create env (world st)))))],
        [Lit ''   Seed: '', Fmt (PyStr (seed (fst (Wallet_create env (world st)))))],
        [Lit (''   '' @ WARNING_SIGN @ ''  SAVE THIS SEED - IT WILL NOT BE SHOWN AGAIN'')]]"
  by (simp_all add: create_wallet_def split: prod.splits)

lemmas fund_defs = fund_wallet_def do_requests_post_def do_get_balance_def do_sleep_def
  Let_def print_def


lemma redact_simps [simp]:
  "redact [Lit t, Fmt v, x] = [Lit t, Fmt v, x]"
  "redact [Lit t] = [Lit t]"
  "t \<noteq> ''   Seed: '' \<Longrightarrow> redact [Lit t, Fmt v] = [Lit t, Fmt v]"
  "redact [Lit ''   Seed: '', Fmt v] = [Lit ''   Seed: '']"
  by (simp_all add: redact_def)

lemma fund_wallet_rel:
  assumes "world st' = world st" and "network st' = network st"
    and "map redact (stdout st') = map redact (stdout st)"
    and "classic_address wl' = classic_address wl"
  shows "fst (fund_wallet env wl' st') = fst (fund_wallet env wl st) \<and>
         world (snd (fund_wallet env wl' st')) = world (snd (fund_wallet env wl st)) \<and>
         network (snd (fund_wallet env wl' st')) = network (snd (fund_wallet env wl st)) \<and>
         map redact (stdout (snd (fund_wallet env wl' st')))
           = map redact (stdout (snd (fund_wallet env wl st)))"
proof -
  obtain r1 w1 where rp: "requests_post env (classic_address wl) (world st) = (r1, w1)"
    by (cases "requests_post env (classic_address wl) (world st)")
  obtain b w2 where gb:
    "xrpl_get_balance env (classic_address wl) (time_sleep env 4 w1) = (b, w2)"
    by (cases "xrpl_get_balance env (classic_address wl) (time_sleep env 4 w1)")
  show ?thesis
  proof (cases r1)
    case (Inl e)
    then show ?thesis using rp assms
      by (cases e) (simp_all add: fund_defs CROSS_MARK_def)
  next
    case (Inr code)
    show ?thesis
    proof (cases b)
      case (Inl e)
      then show ?thesis using rp Inr gb assms
        by (cases e) (simp_all add: fund_defs CROSS_MARK_def)
    next
      case d: (Inr d)
      then show ?thesis using rp Inr gb assms
        by (cases "drops_to_xrp env d")
           (auto simp: fund_defs CROSS_MARK_def split: exn.splits)
    qed
  qed
qed

lemma same_but_seeds_refl: "same_but_seeds s s"
  by (simp add: same_but_seeds_def)

lemma same_but_seeds_print: "same_but_seeds s s' \<Longrightarrow> same_but_seeds (print l s) (print l s')"
  by (simp add: same_but_seeds_def)

lemma fund_wallet_upd:
  "fund_wallet (env\<lparr>Wallet_create := wc\<rparr>) wl st = fund_wallet env wl st"
  by (simp add: fund_wallet_def do_requests_post_def do_get_balance_def do_sleep_def
      cong: if_cong)

lemma build_error_upd: "build_error (env\<lparr>Wallet_create := wc\<rparr>) a memo = build_error env a memo"
  by (simp add: build_error_def)

lemma create_wallet_rel:
  assumes "same_but_seeds s s'"
    and "\<forall>w. classic_address (fst (wc w)) = classic_address (fst (Wallet_create env w)) \<and>
             snd (wc w) = snd (Wallet_create env w)"
    and "create_wallet env l s = (wl, t)"
    and "create_wallet (env\<lparr>Wallet_create := wc\<rparr>) l s' = (wl', t')"
  shows "classic_address wl' = classic_address wl \<and> same_but_seeds t t'"
proof -
  from assms(3) have wl: "wl = fst (Wallet_create env (world s))"
    and t: "t = snd (create_wallet env l s)"
    using create_wallet_fields(3) [of env l s] by simp_all
  from assms(4) have wl': "wl' = fst (wc (world s'))"
    and t': "t' = snd (create_wallet (env\<lparr>Wallet_create := wc\<rparr>) l s')"
    using create_wallet_fields(3) [of "env\<lparr>Wallet_create := wc\<rparr>" l s'] by simp_all
  from assms(1) have w: "world s' = world s" and n: "network s' = network s"
    and o: "map redact (stdout s') = map redact (stdout s)"
    by (simp_all add: same_but_seeds_def)
  show ?thesis
    unfolding wl wl' t t' same_but_seeds_def create_wallet_fields
    using assms(2) w n o by (simp add: NL_def)
qed

lemma fund_wallet_same:
  assumes "same_but_seeds s s'" and "classic_address wl' = classic_address wl"
  shows "fst (fund_wallet env wl' s') = fst (fund_wallet env wl s) \<and>
         same_but_seeds (snd (fund_wallet env wl s)) (snd (fund_wallet env wl' s'))"
  using fund_wallet_rel [of s' s wl' wl env] assms by (simp add: same_but_seeds_def)

subsection \<open>The flow never gets past its third step\<close>

text \<open>
  The memo of step 3 is not empty, so \<open>create_escrow\<close> raises there: the flow is the three
  wallet creations, the funding, and then either the return after a failed funding or the
  exception of the escrow builder.
\<close>

lemma memo3_nonempty:
  "codepoints ''Project #2025-001: Foundation Complete - $100,000 USD'' \<noteq> []"
  by (simp add: codepoints_def)

lemma flow_shape:
  "simulate_construction_payment_flow env st0 =
     (case create_wallet env ''Owner Wallet''
             (fold print
                [nl_rule_line,
                 [Lit (BUILDING_CONSTRUCTION @ ''  CONSTRUCTION PAYMENT FLOW SIMULATION'')],
                 rule_line,
                 [Lit (NL @ CLIPBOARD @ '' Step 1: Creating Project Wallets'')]] st0) of
        (owner_wallet, st2) \<Rightarrow>
      case create_wallet env ''General Contractor Wallet'' st2 of (gc_wallet, st3) \<Rightarrow>
      case create_wallet env ''Subcontractor Wallet'' st3 of (sub_wallet, st4) \<Rightarrow>
        then_do
          (fund_wallet env owner_wallet
             (print [Lit (NL @ CLIPBOARD
                            @ '' Step 2: Funding Owner Wallet from Testnet Faucet'')] st4))
          (\<lambda>funded st5.
             if \<not> funded then
               (Inr (),
                print [Lit (CROSS_MARK
                              @ '' Simulation failed - could not fund owner wallet'')] st5)
             else
               (Inl (build_error env 50
                       (codepoints ''Project #2025-001: Foundation Complete - $100,000 USD'')),
                fold print
                  [[Lit (NL @ LOCK @ '' Creating escrow for ''), Fmt (PyInt 50),
                    Lit '' XRP...''],
                   [Lit ''   From: '', Fmt (PyStr (classic_address owner_wallet))],
                   [Lit ''   To: '', Fmt (PyStr (classic_address gc_wallet))],
                   [Lit ''   Release after: '', Fmt (PyInt 7), Lit '' days'']]
                  (print [Lit (NL @ CLIPBOARD
                     @ '' Step 3: Owner Creates Escrow for GC (Foundation Milestone)'')] st5))))"
  unfolding simulate_construction_payment_flow_def Let_def
    create_escrow_raises [OF memo3_nonempty] then_do_simps
  by (rule refl)


section \<open>The claims\<close>

subsection \<open>Memos\<close>

text \<open>
  Claim C9. A payment or an escrow built with the empty memo carries no memo field at all,
  so the category tag is left out too; a transaction that was built has a memo field
  exactly when the memo text is not empty.
\<close>

theorem memo_attached_iff_nonempty:
  "(payment_tx env fw to a memo = Inr p \<longrightarrow> (memos p = None \<longleftrightarrow> memo = [])) \<and>
   (escrow_tx env t fw to a d memo = Inr q \<longrightarrow> (memos q = None \<longleftrightarrow> memo = []))"
  unfolding payment_tx_def escrow_tx_def Let_def set_memos_def
  by (auto split: sum.splits if_splits)

text \<open>The two builders at the empty memo, on the in-memory ledger.\<close>

theorem memo_attached_iff_nonempty_witness:
  "payment_tx (ledger_env 10 1000000000 []) owner0 ''rContractor'' 25 []
     = Inr \<lparr>account = ''rOwner'', destination = ''rContractor'', amount = ''25000000'',
            memos = None\<rparr> \<and>
   escrow_tx (ledger_env 10 1000000000 []) 1000000000 owner0 ''rContractor'' 50 7 []
     = Inr \<lparr>account = ''rOwner'', destination = ''rContractor'', amount = ''50000000'',
            memos = None, finish_after = 53920000\<rparr>"
proof -
  let ?E = "ledger_env 10 1000000000 []"
  obtain p where p: "payment_tx ?E owner0 ''rContractor'' 25 [] = Inr p"
    by (simp add: payment_tx_cases)
  obtain q where q: "escrow_tx ?E 1000000000 owner0 ''rContractor'' 50 7 [] = Inr q"
    by (simp add: escrow_tx_cases)
  from memo_attached_iff_nonempty [where env = ?E and memo = "[]" and p = p] p
  have "memos p = None" by simp
  moreover from memo_attached_iff_nonempty [where env = ?E and t = 1000000000 and d = 7
      and memo = "[]" and q = q] q
  have "memos q = None" by simp
  ultimately show ?thesis using p q
    by (auto simp: payment_tx_cases escrow_tx_cases owner0_def show_nat_25 show_nat_50
        RIPPLE_EPOCH_def)
qed

text \<open>
  Claim C5 has every memo text and its tag stored in the memo slot so that they decode back
  unchanged. The encoding \<open>memo.encode('utf-8').hex()\<close> is lossless, but its result never
  reaches a transaction: for every non-empty memo the builders end in an exception (that of
  the amount conversion, of \<open>memo.encode\<close>, or else \<open>FrozenInstanceError\<close> from the
  assignment to \<open>memos\<close>), \<open>send_payment\<close> and \<open>create_escrow\<close> raise it before their
  \<open>try\<close>, and nothing is submitted. When the amount converts and the memo encodes, the
  exception is \<open>FrozenInstanceError\<close>, and the hex string that was computed does decode to
  the memo.
\<close>

theorem nonempty_memo_is_never_stored:
  assumes "memo \<noteq> []"
  shows "payment_tx env fw to a memo = Inl (build_error env a memo) \<and>
         escrow_tx env t fw to a d memo = Inl (build_error env a memo) \<and>
         fst (send_payment env fw to a memo st) = Inl (build_error env a memo) \<and>
         network (snd (send_payment env fw to a memo st)) = network st \<and>
         fst (create_escrow env fw to a d memo st) = Inl (build_error env a memo) \<and>
         network (snd (create_escrow env fw to a d memo st)) = network st \<and>
         (xrp_to_drops env a = Inr drops \<and> encode_hex memo = Inr md \<and> is_str memo \<longrightarrow>
            build_error env a memo = Exception ''FrozenInstanceError'' \<and>
            decode_hex md = Some memo)"
  using assms
  by (simp add: payment_tx_nonempty escrow_tx_nonempty send_payment_raises create_escrow_raises
      build_error_def decode_encode_hex)

text \<open>
  The memo of step 4 of the flow: \<open>send_payment\<close> prints its three lines and raises;
  the hex string of the memo decodes back to it.
\<close>

theorem nonempty_memo_is_never_stored_witness:
  "send_payment (ledger_env 10 1000000000 []) owner0 ''rContractor'' 25
       (codepoints ''Project #2025-001: Progress Payment #1'') (start (ledger0 []))
     = (Inl (Exception ''FrozenInstanceError''),
        \<lparr>world = ledger0 [],
         stdout =
           [[Lit (NL @ OUTBOX_TRAY @ '' Sending ''), Fmt (PyInt 25), Lit '' XRP...''],
            [Lit ''   From: '', Fmt (PyStr ''rOwner'')],
            [Lit ''   To: '', Fmt (PyStr ''rContractor'')]],
         network = []\<rparr>) \<and>
   encode_hex (codepoints ''Project #2025-001: Progress Payment #1'')
     = Inr ''50726f6a6563742023323032352d3030313a2050726f6772657373205061796d656e74202331'' \<and>
   decode_hex ''50726f6a6563742023323032352d3030313a2050726f6772657373205061796d656e74202331''
     = Some (codepoints ''Project #2025-001: Progress Payment #1'')"
proof -
  let ?E = "ledger_env 10 1000000000 []"
  let ?memo = "codepoints ''Project #2025-001: Progress Payment #1''"
  let ?md = "''50726f6a6563742023323032352d3030313a2050726f6772657373205061796d656e74202331''"
  have ne: "?memo \<noteq> []" by (simp add: codepoints_def)
  have h: "xrp_to_drops ?E 25 = Inr ''25000000'' \<and> encode_hex ?memo = Inr ?md \<and> is_str ?memo"
    by (simp add: show_nat_25 enc_eval) (simp add: is_str_def)
  from nonempty_memo_is_never_stored [OF ne, where env = ?E and a = 25
      and drops = "''25000000''" and md = ?md, THEN conjunct2, THEN conjunct2, THEN conjunct2,
      THEN conjunct2, THEN conjunct2, THEN conjunct2, THEN mp, OF h]
  have d: "decode_hex ?md = Some ?memo" by simp
  have s: "send_payment ?E owner0 ''rContractor'' 25 ?memo (start (ledger0 []))
     = (Inl (Exception ''FrozenInstanceError''),
        \<lparr>world = ledger0 [],
         stdout =
           [[Lit (NL @ OUTBOX_TRAY @ '' Sending ''), Fmt (PyInt 25), Lit '' XRP...''],
            [Lit ''   From: '', Fmt (PyStr ''rOwner'')],
            [Lit ''   To: '', Fmt (PyStr ''rContractor'')]],
         network = []\<rparr>)"
    by (simp add: run_defs)
  from h d s show ?thesis by simp
qed

subsection \<open>Amounts and release times\<close>

text \<open>
  Claim C7. For every amount, the payment and the escrow built for it carry the same
  \<open>amount\<close> field: both hold what \<open>xrp_to_drops\<close> returns for the amount, the decimal
  string of drops. The conversion itself is the SDK's.
\<close>

theorem amount_fields_agree:
  assumes "payment_tx env fw to a memo = Inr p"
    and "escrow_tx env t fw' to' a d memo' = Inr q"
  shows "amount p = amount q \<and> xrp_to_drops env a = Inr (amount p)"
  using assms by (auto simp: payment_tx_cases escrow_tx_cases split: sum.splits if_splits)

text \<open>50 XRP, as a payment and as an escrow: both carry 50000000 drops.\<close>

theorem amount_fields_agree_witness:
  "payment_tx (ledger_env 10 1000000000 []) owner0 ''rContractor'' 50 []
     = Inr \<lparr>account = ''rOwner'', destination = ''rContractor'', amount = ''50000000'',
            memos = None\<rparr> \<and>
   escrow_tx (ledger_env 10 1000000000 []) 1000000000 owner0 ''rContractor'' 50 7 []
     = Inr \<lparr>account = ''rOwner'', destination = ''rContractor'', amount = ''50000000'',
            memos = None, finish_after = 53920000\<rparr> \<and>
   xrp_to_drops (ledger_env 10 1000000000 []) 50 = Inr ''50000000''"
proof -
  let ?E = "ledger_env 10 1000000000 []"
  let ?p = "\<lparr>account = ''rOwner'', destination = ''rContractor'', amount = ''50000000'',
            memos = None\<rparr>"
  let ?q = "\<lparr>account = ''rOwner'', destination = ''rContractor'', amount = ''50000000'',
            memos = None, finish_after = 53920000\<rparr>"
  have p: "payment_tx ?E owner0 ''rContractor'' 50 [] = Inr ?p"
    by (simp add: payment_tx_cases owner0_def show_nat_50)
  have q: "escrow_tx ?E 1000000000 owner0 ''rContractor'' 50 7 [] = Inr ?q"
    by (simp add: escrow_tx_cases owner0_def show_nat_50 RIPPLE_EPOCH_def)
  from amount_fields_agree [OF p q] have "xrp_to_drops ?E 50 = Inr ''50000000''" by simp
  with p q show ?thesis by simp
qed

text \<open>
  Claim C6. For every positive delay of \<open>d\<close> days, the escrow that \<open>create_escrow\<close>
  submits carries a \<open>finish_after\<close> which, read in the ledger's epoch (seconds since
  2000-01-01, that is plus \<open>RIPPLE_EPOCH\<close> in Unix time), is the clock value read at the
  call plus \<open>d\<close> days of 86400 seconds.
\<close>

theorem escrow_release_time:
  assumes "0 < d"
    and "escrow_tx env (time_time env (world st)) fw to a d memo = Inr q"
  shows "network (snd (create_escrow env fw to a d memo st))
           = network st @ [SubmitAndWait (EscrowCreateTx q) fw] \<and>
         finish_after q + RIPPLE_EPOCH = time_time env (world st) + d * 86400"
  using assms(2)
  by (auto simp: create_escrow_network escrow_tx_cases split: sum.splits if_splits)

text \<open>The escrow of the milestone flow, with the empty memo: 7 days after 1000000000.\<close>

theorem escrow_release_time_witness:
  "network (snd (create_escrow (ledger_env 10 1000000000 []) owner0 ''rContractor'' 50 7 []
                   (start (ledger0 [owner0, gc0, sub0]))))
     = [SubmitAndWait
          (EscrowCreateTx \<lparr>account = ''rOwner'', destination = ''rContractor'',
                           amount = ''50000000'', memos = None, finish_after = 53920000\<rparr>)
          owner0] \<and>
   53920000 + RIPPLE_EPOCH = 1000000000 + 7 * (86400 :: int)"
proof -
  let ?E = "ledger_env 10 1000000000 []"
  let ?st = "start (ledger0 [owner0, gc0, sub0])"
  let ?q = "\<lparr>account = ''rOwner'', destination = ''rContractor'', amount = ''50000000'',
            memos = None, finish_after = 53920000\<rparr>"
  have t: "time_time ?E (world ?st) = 1000000000"
    by (simp add: start_def ledger0_def)
  have q: "escrow_tx ?E (time_time ?E (world ?st)) owner0 ''rContractor'' 50 7 [] = Inr ?q"
    unfolding t by (simp add: escrow_tx_cases owner0_def show_nat_50 RIPPLE_EPOCH_def)
  have n: "network ?st = []" by (simp add: start_def)
  from escrow_release_time [OF _ q] show ?thesis
    unfolding t n by simp
qed

text \<open>
  Claim C3, as stated, has escrow construction fail with \<open>InvalidDelay\<close> for a delay of 0
  or less, before any network call. With a delay of 0 days and the empty memo the escrow is
  built, with the current time as its release time, and submitted.
\<close>

theorem zero_delay_escrow_counterexample:
  "escrow_tx (ledger_env 10 1000000000 []) 1000000000 owner0 ''rContractor'' 50 0 []
     = Inr \<lparr>account = ''rOwner'', destination = ''rContractor'', amount = ''50000000'',
            memos = None, finish_after = 53315200\<rparr> \<and>
   network (snd (create_escrow (ledger_env 10 1000000000 []) owner0 ''rContractor'' 50 0 []
                   (start (ledger0 [owner0, gc0, sub0]))))
     = [SubmitAndWait
          (EscrowCreateTx \<lparr>account = ''rOwner'', destination = ''rContractor'',
                           amount = ''50000000'', memos = None, finish_after = 53315200\<rparr>)
          owner0]"
  by (simp add: create_escrow_network escrow_tx_cases owner0_def show_nat_50 RIPPLE_EPOCH_def
      start_def ledger0_def)

text \<open>
  Claim C3, amended. \<open>create_escrow\<close> does not check the delay, and there is no
  \<open>InvalidDelay\<close>. For every delay of 0 days or less: with the empty memo, if the amount
  converts, the escrow is built and submitted to the network, with a release time
  (\<open>finish_after\<close>, clock plus delay) that is not after the clock value read at the call;
  and with any memo, the builder ends in an exception for this delay exactly when it does
  for a delay of 7 days, with the same exception, so that no failure is due to the delay.
\<close>

theorem nonpositive_delay_is_not_checked:
  assumes "d \<le> 0"
  shows "(xrp_to_drops env a = Inr drops \<longrightarrow>
            (\<exists>q. escrow_tx env (time_time env (world st)) fw to a d [] = Inr q \<and>
                 network (snd (create_escrow env fw to a d [] st))
                   = network st @ [SubmitAndWait (EscrowCreateTx q) fw] \<and>
                 finish_after q = time_time env (world st) + d * 86400 - RIPPLE_EPOCH \<and>
                 finish_after q + RIPPLE_EPOCH \<le> time_time env (world st))) \<and>
         (escrow_tx env t fw to a d memo = Inl e \<longleftrightarrow> escrow_tx env t fw to a 7 memo = Inl e)"
proof (intro conjI impI)
  assume x: "xrp_to_drops env a = Inr drops"
  then obtain q
    where q: "escrow_tx env (time_time env (world st)) fw to a d [] = Inr q"
      and f: "finish_after q = time_time env (world st) + d * 86400 - RIPPLE_EPOCH"
    by (simp add: escrow_tx_cases)
  from assms have "d * 86400 \<le> 0" by simp
  with q f show "\<exists>q. escrow_tx env (time_time env (world st)) fw to a d [] = Inr q \<and>
                 network (snd (create_escrow env fw to a d [] st))
                   = network st @ [SubmitAndWait (EscrowCreateTx q) fw] \<and>
                 finish_after q = time_time env (world st) + d * 86400 - RIPPLE_EPOCH \<and>
                 finish_after q + RIPPLE_EPOCH \<le> time_time env (world st)"
    by (simp add: create_escrow_network)
next
  show "escrow_tx env t fw to a d memo = Inl e \<longleftrightarrow> escrow_tx env t fw to a 7 memo = Inl e"
    by (simp add: escrow_tx_cases split: sum.splits)
qed

text \<open>A delay of minus one day, with the empty memo.\<close>

theorem nonpositive_delay_is_not_checked_witness:
  "escrow_tx (ledger_env 10 1000000000 []) 1000000000 owner0 ''rContractor'' 50 (- 1) []
     = Inr \<lparr>account = ''rOwner'', destination = ''rContractor'', amount = ''50000000'',
            memos = None, finish_after = 53228800\<rparr> \<and>
   network (snd (create_escrow (ledger_env 10 1000000000 []) owner0 ''rContractor'' 50 (- 1) []
                   (start (ledger0 [owner0, gc0, sub0]))))
     = [SubmitAndWait
          (EscrowCreateTx \<lparr>account = ''rOwner'', destination = ''rContractor'',
                           amount = ''50000000'', memos = None, finish_after = 53228800\<rparr>)
          owner0]"
proof -
  let ?E = "ledger_env 10 1000000000 []"
  let ?st = "start (ledger0 [owner0, gc0, sub0])"
  have t: "time_time ?E (world ?st) = 1000000000"
    by (simp add: start_def ledger0_def)
  have n: "network ?st = []" by (simp add: start_def)
  have d: "(- 1 :: int) \<le> 0" by simp
  have x: "xrp_to_drops ?E 50 = Inr ''50000000''" by (simp add: show_nat_50)
  from nonpositive_delay_is_not_checked [OF d, where env = ?E and a = 50
      and drops = "''50000000''" and st = ?st and fw = owner0 and to = "''rContractor''",
      THEN conjunct1, THEN mp, OF x]
  obtain q where "escrow_tx ?E 1000000000 owner0 ''rContractor'' 50 (- 1) [] = Inr q"
    and "network (snd (create_escrow ?E owner0 ''rContractor'' 50 (- 1) [] ?st))
           = [SubmitAndWait (EscrowCreateTx q) owner0]"
    unfolding t n by auto
  then show ?thesis
    by (simp add: escrow_tx_cases owner0_def show_nat_50 RIPPLE_EPOCH_def)
qed

subsection \<open>The outcomes of the two submitting methods\<close>

text \<open>
  Claim C10, as stated, has no exception escape \<open>send_payment\<close> and \<open>create_escrow\<close>, and
  has them return the hash exactly when the outcome code is \<open>tesSUCCESS\<close>. The transaction
  is built before the \<open>try\<close>: a memo with a lone surrogate (U+D800) makes
  \<open>memo.encode('utf-8')\<close> raise, and the exception reaches the caller. And with the outcome
  \<open>tesSUCCESS\<close> the result is \<open>None\<close> when the balance read that follows, inside the
  \<open>try\<close>, raises: here the payment is committed (the contractor holds 25 XRP more) and
  \<open>send_payment\<close> prints \<open>Payment error: TypeError\<close> and returns \<open>None\<close>.
\<close>

theorem exception_escapes_counterexample:
  "fst (send_payment (ledger_env 10 1000000000 []) owner0 ''rContractor'' 25 [0xD800]
          (start (ledger0 [])))
     = Inl (Exception ''UnicodeEncodeError'') \<and>
   (case send_payment (ledger_env 10 1000000000 []) owner0 ''rContractor'' 25 []
           (start ((ledger0 [])\<lparr>balance_of := (\<lambda>a. 1000000000)\<rparr>)) of
      (result, final) \<Rightarrow>
        result = Inr None \<and>
        balance_of (world final) ''rContractor'' = 1025000000 \<and>
        last (stdout final)
          = [Lit (''   '' @ CROSS_MARK @ '' Payment error: ''), Fmt (PyExc (Exception ''TypeError''))])"
  by (simp add: run_defs)

text \<open>
  Claim C10, amended. For \<open>send_payment\<close> and for \<open>create_escrow\<close>: a transaction that was
  built is submitted; an \<open>Exception\<close> raised by \<open>submit_and_wait\<close> is caught and the method
  returns \<open>None\<close>; an outcome code other than \<open>tesSUCCESS\<close> gives \<open>None\<close>; with the outcome
  code \<open>tesSUCCESS\<close>, a \<open>hash\<close> in the response and no exception from the calls that follow
  inside the \<open>try\<close> (the balance read of \<open>send_payment\<close>, the date conversion of
  \<open>create_escrow\<close>), the method returns the hash; a returned hash is the \<open>hash\<close> of a
  response whose outcome code is \<open>tesSUCCESS\<close>; and an \<open>Exception\<close> that reaches the caller
  was raised while the transaction was built, before the \<open>try\<close>, and then nothing was
  submitted.
\<close>

theorem submit_outcomes:
  "(payment_tx env fw to a memo = Inr p \<longrightarrow>
      (\<exists>ns. network (snd (send_payment env fw to a memo st))
               = network st @ SubmitAndWait (PaymentTx p) fw # ns)) \<and>
   (payment_tx env fw to a memo = Inr p \<longrightarrow>
      submit_and_wait env (PaymentTx p) fw (world st) = (Inl (Exception m), w) \<longrightarrow>
      fst (send_payment env fw to a memo st) = Inr None) \<and>
   (payment_tx env fw to a memo = Inr p \<longrightarrow>
      submit_and_wait env (PaymentTx p) fw (world st) = (Inr resp, w) \<longrightarrow>
      TransactionResult resp \<noteq> Some ''tesSUCCESS'' \<longrightarrow>
      fst (send_payment env fw to a memo st) = Inr None) \<and>
   (payment_tx env fw to a memo = Inr p \<longrightarrow>
      submit_and_wait env (PaymentTx p) fw (world st) = (Inr resp, w) \<longrightarrow>
      TransactionResult resp = Some ''tesSUCCESS'' \<longrightarrow>
      hash resp = Some h \<longrightarrow>
      xrpl_get_balance env (classic_address fw) w = (Inr b, w') \<longrightarrow>
      drops_to_xrp env b = Inr x \<longrightarrow>
      fst (send_payment env fw to a memo st) = Inr (Some h)) \<and>
   (fst (send_payment env fw to a memo st) = Inr (Some h) \<longrightarrow>
      (\<exists>p' resp' w'.
          payment_tx env fw to a memo = Inr p' \<and>
          submit_and_wait env (PaymentTx p') fw (world st) = (Inr resp', w') \<and>
          TransactionResult resp' = Some ''tesSUCCESS'' \<and> hash resp' = Some h)) \<and>
   (fst (send_payment env fw to a memo st) = Inl (Exception y) \<longrightarrow>
      payment_tx env fw to a memo = Inl (Exception y) \<and>
      network (snd (send_payment env fw to a memo st)) = network st) \<and>
   (escrow_tx env (time_time env (world st)) fw to a d memo = Inr q \<longrightarrow>
      network (snd (create_escrow env fw to a d memo st))
        = network st @ [SubmitAndWait (EscrowCreateTx q) fw]) \<and>
   (escrow_tx env (time_time env (world st)) fw to a d memo = Inr q \<longrightarrow>
      submit_and_wait env (EscrowCreateTx q) fw (world st) = (Inl (Exception m), w) \<longrightarrow>
      fst (create_escrow env fw to a d memo st) = Inr None) \<and>
   (escrow_tx env (time_time env (world st)) fw to a d memo = Inr q \<longrightarrow>
      submit_and_wait env (EscrowCreateTx q) fw (world st) = (Inr resp, w) \<longrightarrow>
      TransactionResult resp \<noteq> Some ''tesSUCCESS'' \<longrightarrow>
      fst (create_escrow env fw to a d memo st) = Inr None) \<and>
   (escrow_tx env (time_time env (world st)) fw to a d memo = Inr q \<longrightarrow>
      submit_and_wait env (EscrowCreateTx q) fw (world st) = (Inr resp, w) \<longrightarrow>
      TransactionResult resp = Some ''tesSUCCESS'' \<longrightarrow>
      hash resp = Some h \<longrightarrow>
      fromtimestamp env (finish_after q + RIPPLE_EPOCH) = Inr v \<longrightarrow>
      fst (create_escrow env fw to a d memo st) = Inr (Some h)) \<and>
   (fst (create_escrow env fw to a d memo st) = Inr (Some h) \<longrightarrow>
      (\<exists>q' resp' w'.
          escrow_tx env (time_time env (world st)) fw to a d memo = Inr q' \<and>
          submit_and_wait env (EscrowCreateTx q') fw (world st) = (Inr resp', w') \<and>
          TransactionResult resp' = Some ''tesSUCCESS'' \<and> hash resp' = Some h)) \<and>
   (fst (create_escrow env fw to a d memo st) = Inl (Exception y) \<longrightarrow>
      escrow_tx env (time_time env (world st)) fw to a d memo = Inl (Exception y) \<and>
      network (snd (create_escrow env fw to a d memo st)) = network st)"
proof (intro conjI impI)
  assume "payment_tx env fw to a memo = Inr p"
  then show "\<exists>ns. network (snd (send_payment env fw to a memo st))
               = network st @ SubmitAndWait (PaymentTx p) fw # ns"
    by (rule send_payment_network)
next
  assume "payment_tx env fw to a memo = Inr p"
    and "submit_and_wait env (PaymentTx p) fw (world st) = (Inl (Exception m), w)"
  then show "fst (send_payment env fw to a memo st) = Inr None"
    by (simp add: send_payment_result)
next
  assume "payment_tx env fw to a memo = Inr p"
    and "submit_and_wait env (PaymentTx p) fw (world st) = (Inr resp, w)"
    and "TransactionResult resp \<noteq> Some ''tesSUCCESS''"
  then show "fst (send_payment env fw to a memo st) = Inr None"
    by (simp add: send_payment_result)
next
  assume "payment_tx env fw to a memo = Inr p"
    and "submit_and_wait env (PaymentTx p) fw (world st) = (Inr resp, w)"
    and "TransactionResult resp = Some ''tesSUCCESS''"
    and "hash resp = Some h"
    and "xrpl_get_balance env (classic_address fw) w = (Inr b, w')"
    and "drops_to_xrp env b = Inr x"
  then show "fst (send_payment env fw to a memo st) = Inr (Some h)"
    by (simp add: send_payment_result)
next
  assume "fst (send_payment env fw to a memo st) = Inr (Some h)"
  then show "\<exists>p' resp' w'.
      payment_tx env fw to a memo = Inr p' \<and>
      submit_and_wait env (PaymentTx p') fw (world st) = (Inr resp', w') \<and>
      TransactionResult resp' = Some ''tesSUCCESS'' \<and> hash resp' = Some h"
    by (simp add: send_payment_result
        split: sum.splits prod.splits exn.splits option.splits if_splits)
next
  assume e: "fst (send_payment env fw to a memo st) = Inl (Exception y)"
  then show b: "payment_tx env fw to a memo = Inl (Exception y)"
    by (simp add: send_payment_result
        split: sum.splits prod.splits exn.splits option.splits if_splits)
  show "network (snd (send_payment env fw to a memo st)) = network st"
    by (rule send_payment_build_error [OF b])
next
  assume "escrow_tx env (time_time env (world st)) fw to a d memo = Inr q"
  then show "network (snd (create_escrow env fw to a d memo st))
        = network st @ [SubmitAndWait (EscrowCreateTx q) fw]"
    by (simp add: create_escrow_network)
next
  assume "escrow_tx env (time_time env (world st)) fw to a d memo = Inr q"
    and "submit_and_wait env (EscrowCreateTx q) fw (world st) = (Inl (Exception m), w)"
  then show "fst (create_escrow env fw to a d memo st) = Inr None"
    by (simp add: create_escrow_result)
next
  assume "escrow_tx env (time_time env (world st)) fw to a d memo = Inr q"
    and "submit_and_wait env (EscrowCreateTx q) fw (world st) = (Inr resp, w)"
    and "TransactionResult resp \<noteq> Some ''tesSUCCESS''"
  then show "fst (create_escrow env fw to a d memo st) = Inr None"
    by (simp add: create_escrow_result)
next
  assume "escrow_tx env (time_time env (world st)) fw to a d memo = Inr q"
    and "submit_and_wait env (EscrowCreateTx q) fw (world st) = (Inr resp, w)"
    and "TransactionResult resp = Some ''tesSUCCESS''"
    and "hash resp = Some h"
    and "fromtimestamp env (finish_after q + RIPPLE_EPOCH) = Inr v"
  then show "fst (create_escrow env fw to a d memo st) = Inr (Some h)"
    by (simp add: create_escrow_result)
next
  assume "fst (create_escrow env fw to a d memo st) = Inr (Some h)"
  then show "\<exists>q' resp' w'.
      escrow_tx env (time_time env (world st)) fw to a d memo = Inr q' \<and>
      submit_and_wait env (EscrowCreateTx q') fw (world st) = (Inr resp', w') \<and>
      TransactionResult resp' = Some ''tesSUCCESS'' \<and> hash resp' = Some h"
    by (simp add: create_escrow_result
        split: sum.splits prod.splits exn.splits option.splits if_splits)
next
  assume e: "fst (create_escrow env fw to a d memo st) = Inl (Exception y)"
  then show b: "escrow_tx env (time_time env (world st)) fw to a d memo = Inl (Exception y)"
    by (simp add: create_escrow_result
        split: sum.splits prod.splits exn.splits option.splits if_splits)
  then show "network (snd (create_escrow env fw to a d memo st)) = network st"
    by (simp add: create_escrow_network)
qed

text \<open>
  A payment whose wait loses the connection, an escrow the owner cannot fund, an escrow
  that commits and whose hash is returned, and a memo that UTF-8 cannot encode.
\<close>

theorem submit_outcomes_witness:
  "fst (send_payment (ledger_env 10 1000000000 [0]) owner0 ''rContractor'' 25 []
          (start (ledger0 []))) = Inr None \<and>
   fst (create_escrow (ledger_env 10 1000000000 []) owner0 ''rContractor'' 50 7 []
          (start (ledger0 []))) = Inr None \<and>
   fst (create_escrow (ledger_env 10 1000000000 []) owner0 ''rContractor'' 50 7 []
          (start ((ledger0 [])\<lparr>balance_of := (\<lambda>a. 1000000000)\<rparr>)))
     = Inr (Some ''ESC-rOwner-rContractor-50000000'') \<and>
   payment_tx (ledger_env 10 1000000000 []) owner0 ''rContractor'' 25 [0xD800]
     = Inl (Exception ''UnicodeEncodeError'') \<and>
   network (snd (send_payment (ledger_env 10 1000000000 []) owner0 ''rContractor'' 25 [0xD800]
                   (start (ledger0 [])))) = []"
proof -
  let ?st = "start (ledger0 [])"
  let ?L = "(ledger0 [])\<lparr>balance_of := (\<lambda>a. 1000000000)\<rparr>"
  let ?p = "\<lparr>account = ''rOwner'', destination = ''rContractor'', amount = ''25000000'',
            memos = None\<rparr>"
  let ?q = "\<lparr>account = ''rOwner'', destination = ''rContractor'', amount = ''50000000'',
            memos = None, finish_after = 53920000\<rparr>"
  let ?lost = "ledger_env 10 1000000000 [0]"
  let ?E = "ledger_env 10 1000000000 []"
  let ?rej = "\<lparr>TransactionResult = Some ''tecUNFUNDED'',
               hash = Some ''ESC-rOwner-rContractor-50000000'', validated = Some True\<rparr>"
  let ?ok = "\<lparr>TransactionResult = Some ''tesSUCCESS'',
              hash = Some ''ESC-rOwner-rContractor-50000000'', validated = Some True\<rparr>"
  let ?w = "commit 10 (EscrowCreateTx ?q) 50000000 (?L\<lparr>sent := 1\<rparr>)"
  have p: "payment_tx ?lost owner0 ''rContractor'' 25 [] = Inr ?p"
    by (simp add: payment_tx_cases owner0_def show_nat_25)
  have sp: "submit_and_wait ?lost (PaymentTx ?p) owner0 (world ?st)
            = (Inl (Exception ''FinalityUnknown''), (ledger0 [])\<lparr>sent := 1\<rparr>)"
    by (simp add: ledger_submit_def start_def ledger0_def)
  have q: "escrow_tx ?E (time_time ?E (world ?st)) owner0 ''rContractor'' 50 7 [] = Inr ?q"
    by (simp add: escrow_tx_cases owner0_def show_nat_50 RIPPLE_EPOCH_def start_def ledger0_def)
  have sq: "submit_and_wait ?E (EscrowCreateTx ?q) owner0 (world ?st)
            = (Inr ?rej, (ledger0 [])\<lparr>sent := 1\<rparr>)"
    by (simp add: ledger_submit_def start_def ledger0_def tx_payment_def tx_id_def parse_nat_50)
  have q': "escrow_tx ?E (time_time ?E (world (start ?L))) owner0 ''rContractor'' 50 7 [] = Inr ?q"
    by (simp add: escrow_tx_cases owner0_def show_nat_50 RIPPLE_EPOCH_def start_def ledger0_def)
  have sq': "submit_and_wait ?E (EscrowCreateTx ?q) owner0 (world (start ?L)) = (Inr ?ok, ?w)"
    by (simp add: ledger_submit_def start_def ledger0_def tx_payment_def tx_id_def parse_nat_50)
  have ts: "fromtimestamp ?E (finish_after ?q + RIPPLE_EPOCH) = Inr (PyDateTime 1000604800)"
    by (simp add: RIPPLE_EPOCH_def)
  have e: "fst (send_payment ?E owner0 ''rContractor'' 25 [0xD800] ?st)
           = Inl (Exception ''UnicodeEncodeError'')"
    by (simp add: send_payment_def payment_tx_cases show_nat_25 enc_eval Let_def)
  note so1 = submit_outcomes [where env = ?lost and st = ?st and p = ?p and fw = owner0
      and to = "''rContractor''" and a = 25 and memo = "[]" and m = "''FinalityUnknown''"
      and w = "(ledger0 [])\<lparr>sent := 1\<rparr>"]
  have 1: "fst (send_payment ?lost owner0 ''rContractor'' 25 [] ?st) = Inr None"
    by (rule so1 [THEN conjunct2, THEN conjunct1, THEN mp, THEN mp, OF p sp])
  note so2 = submit_outcomes [where env = ?E and st = ?st and q = ?q and fw = owner0
      and to = "''rContractor''" and a = 50 and d = 7 and memo = "[]"
      and resp = ?rej and w = "(ledger0 [])\<lparr>sent := 1\<rparr>"]
  have ne: "TransactionResult ?rej \<noteq> Some ''tesSUCCESS''"
    by simp
  have 2: "fst (create_escrow ?E owner0 ''rContractor'' 50 7 [] ?st) = Inr None"
    by (rule so2 [THEN conjunct2, THEN conjunct2, THEN conjunct2, THEN conjunct2,
          THEN conjunct2, THEN conjunct2, THEN conjunct2, THEN conjunct2, THEN conjunct1,
          THEN mp, THEN mp, THEN mp, OF q sq ne])
  note so3 = submit_outcomes [where env = ?E and st = "start ?L" and q = ?q and fw = owner0
      and to = "''rContractor''" and a = 50 and d = 7 and memo = "[]"
      and resp = ?ok and w = ?w and h = "''ESC-rOwner-rContractor-50000000''"
      and v = "PyDateTime 1000604800"]
  have ok: "TransactionResult ?ok = Some ''tesSUCCESS''"
    "hash ?ok = Some ''ESC-rOwner-rContractor-50000000''"
    by simp_all
  have 3: "fst (create_escrow ?E owner0 ''rContractor'' 50 7 [] (start ?L))
             = Inr (Some ''ESC-rOwner-rContractor-50000000'')"
    by (rule so3 [THEN conjunct2, THEN conjunct2, THEN conjunct2, THEN conjunct2,
          THEN conjunct2, THEN conjunct2, THEN conjunct2, THEN conjunct2, THEN conjunct2,
          THEN conjunct1, THEN mp, THEN mp, THEN mp, THEN mp, THEN mp, OF q' sq' ok ts])
  note so4 = submit_outcomes [where env = ?E and st = ?st and fw = owner0
      and to = "''rContractor''" and a = 25 and memo = "[0xD800]"
      and y = "''UnicodeEncodeError''"]
  have 4: "payment_tx ?E owner0 ''rContractor'' 25 [0xD800] = Inl (Exception ''UnicodeEncodeError'') \<and>
           network (snd (send_payment ?E owner0 ''rContractor'' 25 [0xD800] ?st)) = network ?st"
    by (rule so4 [THEN conjunct2, THEN conjunct2, THEN conjunct2, THEN conjunct2,
          THEN conjunct2, THEN conjunct1, THEN mp, OF e])
  have n: "network ?st = []" by (simp add: start_def)
  from 1 2 3 4 n show ?thesis by simp
qed



subsection \<open>The milestone flow\<close>



text \<open>
  Claim C8 has the default simulation end with the balances 925, 15 and 10 after the escrow
  and the two payments commit. The program does not get there. On a ledger whose faucet
  grants the owner 1000 XRP, \<open>fund_wallet\<close> hands the \<open>int\<close> balance to \<open>drops_to_xrp\<close>,
  which raises \<open>TypeError\<close>; the exception is caught, the funding is reported as failed and
  the flow returns: no escrow, no payment, no \<open>FINAL BALANCES\<close>, no wallet file. The owner
  holds the 1000 XRP of the faucet, the two others nothing. This is the whole run.
\<close>

theorem milestone_run_stops_at_funding:
  "case main (ledger_env 10 1000000000 []) (start (ledger0 [owner0, gc0, sub0])) of
     (result, final) \<Rightarrow>
       result = Inr () \<and>
       network final = [FaucetPost ''rOwner'', GetBalance ''rOwner''] \<and>
       balance_of (world final) ''rOwner'' = 1000000000 \<and>
       balance_of (world final) ''rContractor'' = 0 \<and>
       balance_of (world final) ''rSubcontractor'' = 0 \<and>
       escrowed (world final) = [] \<and>
       saved (world final) = [] \<and>
       stdout final =
         [[Lit (LINK_SYMBOL @ '' Connected to XRPL Testnet: ''), Fmt (PyStr TESTNET_URL)],
          nl_rule_line,
          [Lit (BUILDING_CONSTRUCTION @ ''  CONSTRUCTION PAYMENT FLOW SIMULATION'')],
          rule_line,
          [Lit (NL @ CLIPBOARD @ '' Step 1: Creating Project Wallets'')],
          [Lit (NL @ CHECK_MARK @ '' Created ''), Fmt (PyStr ''Owner Wallet'')],
          [Lit ''   Address: '', Fmt (PyStr ''rOwner'')],
          [Lit ''   Seed: '', Fmt (PyStr ''sEdOwnerSecret'')],
          [Lit (''   '' @ WARNING_SIGN @ ''  SAVE THIS SEED - IT WILL NOT BE SHOWN AGAIN'')],
          [Lit (NL @ CHECK_MARK @ '' Created ''), Fmt (PyStr ''General Contractor Wallet'')],
          [Lit ''   Address: '', Fmt (PyStr ''rContractor'')],
          [Lit ''   Seed: '', Fmt (PyStr ''sEdContractorSecret'')],
          [Lit (''   '' @ WARNING_SIGN @ ''  SAVE THIS SEED - IT WILL NOT BE SHOWN AGAIN'')],
          [Lit (NL @ CHECK_MARK @ '' Created ''), Fmt (PyStr ''Subcontractor Wallet'')],
          [Lit ''   Address: '', Fmt (PyStr ''rSubcontractor'')],
          [Lit ''   Seed: '', Fmt (PyStr ''sEdSubcontractorSecret'')],
          [Lit (''   '' @ WARNING_SIGN @ ''  SAVE THIS SEED - IT WILL NOT BE SHOWN AGAIN'')],
          [Lit (NL @ CLIPBOARD @ '' Step 2: Funding Owner Wallet from Testnet Faucet'')],
          [Lit (NL @ MONEY_BAG @ '' Funding wallet ''), Fmt (PyStr ''rOwner''), Lit ''...''],
          [Lit (''   '' @ CROSS_MARK @ '' Funding failed: ''),
           Fmt (PyExc (Exception ''TypeError''))],
          [Lit (CROSS_MARK @ '' Simulation failed - could not fund owner wallet'')]]"
  by (simp add: run_defs)

subsection \<open>Seeds and the console\<close>

text \<open>
  Claim C4, as stated, has no seed in the console output, so that two runs that differ only
  in a seed print the same. \<open>create_wallet\<close> prints the seed of every wallet it creates
  (line 41): the run of the whole program prints the owner's seed, and a run with another
  owner seed prints something else.
\<close>

theorem seed_is_printed_counterexample:
  "case (main (ledger_env 10 1000000000 []) (start (ledger0 [owner0, gc0, sub0])),
         main (ledger_env 10 1000000000 [])
           (start (ledger0 [owner0\<lparr>seed := ''sEdOtherSecret''\<rparr>, gc0, sub0]))) of
     ((result1, final1), (result2, final2)) \<Rightarrow>
       [Lit ''   Seed: '', Fmt (PyStr ''sEdOwnerSecret'')] \<in> set (stdout final1) \<and>
       stdout final1 \<noteq> stdout final2"
  by (simp add: run_defs glyph_defs)

text \<open>
  Claim C4, amended. The seed of a wallet appears on the console in the \<open>Seed: ...\<close> line
  that \<open>create_wallet\<close> prints for it, and nowhere else: two runs of the whole program
  whose \<open>Wallet.create()\<close> differ only in the seeds of the wallets they return end in the
  same way and print the same, line for line, but for the values of these \<open>Seed: ...\<close>
  lines.
\<close>

theorem only_seed_lines_show_seeds:
  assumes "\<forall>w. classic_address (fst (wc w)) = classic_address (fst (Wallet_create env w)) \<and>
               snd (wc w) = snd (Wallet_create env w)"
  shows "fst (main (env\<lparr>Wallet_create := wc\<rparr>) st) = fst (main env st) \<and>
         map redact (stdout (snd (main (env\<lparr>Wallet_create := wc\<rparr>) st)))
           = map redact (stdout (snd (main env st)))"
proof -
  let ?env' = "env\<lparr>Wallet_create := wc\<rparr>"
  define st1 where "st1 = fold print
                [nl_rule_line,
                 [Lit (BUILDING_CONSTRUCTION @ ''  CONSTRUCTION PAYMENT FLOW SIMULATION'')],
                 rule_line,
                 [Lit (NL @ CLIPBOARD @ '' Step 1: Creating Project Wallets'')]] (init st)"
  obtain ow st2 where w1: "create_wallet env ''Owner Wallet'' st1 = (ow, st2)"
    by (cases "create_wallet env ''Owner Wallet'' st1")
  obtain gc st3 where w2: "create_wallet env ''General Contractor Wallet'' st2 = (gc, st3)"
    by (cases "create_wallet env ''General Contractor Wallet'' st2")
  obtain sub st4 where w3: "create_wallet env ''Subcontractor Wallet'' st3 = (sub, st4)"
    by (cases "create_wallet env ''Subcontractor Wallet'' st3")
  obtain ow' st2' where w1': "create_wallet ?env' ''Owner Wallet'' st1 = (ow', st2')"
    by (cases "create_wallet ?env' ''Owner Wallet'' st1")
  obtain gc' st3' where w2': "create_wallet ?env' ''General Contractor Wallet'' st2' = (gc', st3')"
    by (cases "create_wallet ?env' ''General Contractor Wallet'' st2'")
  obtain sub' st4' where w3': "create_wallet ?env' ''Subcontractor Wallet'' st3' = (sub', st4')"
    by (cases "create_wallet ?env' ''Subcontractor Wallet'' st3'")
  from create_wallet_rel [OF same_but_seeds_refl assms w1 w1']
  have a1: "classic_address ow' = classic_address ow" and r2: "same_but_seeds st2 st2'"
    by simp_all
  from create_wallet_rel [OF r2 assms w2 w2']
  have a2: "classic_address gc' = classic_address gc" and r3: "same_but_seeds st3 st3'"
    by simp_all
  from create_wallet_rel [OF r3 assms w3 w3']
  have r4: "same_but_seeds st4 st4'"
    by simp
  define l2 where "l2 = [Lit (NL @ CLIPBOARD
                             @ '' Step 2: Funding Owner Wallet from Testnet Faucet'')]"
  obtain rf st5 where f: "fund_wallet env ow (print l2 st4) = (rf, st5)"
    by (cases "fund_wallet env ow (print l2 st4)")
  obtain rf' st5' where f': "fund_wallet env ow' (print l2 st4') = (rf', st5')"
    by (cases "fund_wallet env ow' (print l2 st4')")
  from fund_wallet_same [OF same_but_seeds_print [OF r4, where l = l2] a1, where env = env] f f'
  have rf: "rf' = rf" and r5: "same_but_seeds st5 st5'"
    by simp_all
  from r5 have o5: "map redact (stdout st5') = map redact (stdout st5)"
    by (simp add: same_but_seeds_def)
  have flow: "main env st =
     then_do (rf, st5)
          (\<lambda>funded st5.
             if \<not> funded then
               (Inr (),
                print [Lit (CROSS_MARK
                              @ '' Simulation failed - could not fund owner wallet'')] st5)
             else
               (Inl (build_error env 50
                       (codepoints ''Project #2025-001: Foundation Complete - $100,000 USD'')),
                fold print
                  [[Lit (NL @ LOCK @ '' Creating escrow for ''), Fmt (PyInt 50),
                    Lit '' XRP...''],
                   [Lit ''   From: '', Fmt (PyStr (classic_address ow))],
                   [Lit ''   To: '', Fmt (PyStr (classic_address gc))],
                   [Lit ''   Release after: '', Fmt (PyInt 7), Lit '' days'']]
                  (print [Lit (NL @ CLIPBOARD
                     @ '' Step 3: Owner Creates Escrow for GC (Foundation Milestone)'')] st5)))"
    unfolding main_def flow_shape w1 [unfolded st1_def] prod.case w2 w3 f [unfolded l2_def]
    by (rule refl)
  have flow': "main ?env' st =
     then_do (rf, st5')
          (\<lambda>funded st5.
             if \<not> funded then
               (Inr (),
                print [Lit (CROSS_MARK
                              @ '' Simulation failed - could not fund owner wallet'')] st5)
             else
               (Inl (build_error env 50
                       (codepoints ''Project #2025-001: Foundation Complete - $100,000 USD'')),
                fold print
                  [[Lit (NL @ LOCK @ '' Creating escrow for ''), Fmt (PyInt 50),
                    Lit '' XRP...''],
                   [Lit ''   From: '', Fmt (PyStr (classic_address ow))],
                   [Lit ''   To: '', Fmt (PyStr (classic_address gc))],
                   [Lit ''   Release after: '', Fmt (PyInt 7), Lit '' days'']]
                  (print [Lit (NL @ CLIPBOARD
                     @ '' Step 3: Owner Creates Escrow for GC (Foundation Milestone)'')] st5)))"
    unfolding main_def flow_shape w1' [unfolded st1_def] prod.case w2' w3' fund_wallet_upd
      f' [unfolded l2_def] build_error_upd a1 a2 rf
    by (rule refl)
  show ?thesis
  proof (cases rf)
    case (Inl e)
    then show ?thesis using o5 by (simp add: flow flow')
  next
    case (Inr funded)
    then show ?thesis using o5 by (cases funded) (simp_all add: flow flow' NL_def)
  qed
qed

text \<open>
  The run on the in-memory ledger, and the run in which every new wallet gets another seed.
\<close>

theorem only_seed_lines_show_seeds_witness:
  "case (main (ledger_env 10 1000000000 []) (start (ledger0 [owner0, gc0, sub0])),
         main (ledger_env 10 1000000000 []
                 \<lparr>Wallet_create :=
                    (\<lambda>L. case Wallet_create (ledger_env 10 1000000000 []) L of
                            (wl, L') \<Rightarrow> (wl\<lparr>seed := ''sEdOtherSecret''\<rparr>, L'))\<rparr>)
           (start (ledger0 [owner0, gc0, sub0]))) of
     ((result1, final1), (result2, final2)) \<Rightarrow>
       result2 = result1 \<and>
       map redact (stdout final2) = map redact (stdout final1) \<and>
       [Lit ''   Seed: '', Fmt (PyStr ''sEdOwnerSecret'')] \<in> set (stdout final1) \<and>
       [Lit ''   Seed: '', Fmt (PyStr ''sEdOtherSecret'')] \<in> set (stdout final2) \<and>
       [Lit (CROSS_MARK @ '' Simulation failed - could not fund owner wallet'')]
         \<in> set (stdout final1)"
proof -
  let ?E = "ledger_env 10 1000000000 []"
  let ?wc = "\<lambda>L. case Wallet_create ?E L of (wl, L') \<Rightarrow> (wl\<lparr>seed := ''sEdOtherSecret''\<rparr>, L')"
  let ?st = "start (ledger0 [owner0, gc0, sub0])"
  have h: "\<forall>w. classic_address (fst (?wc w)) = classic_address (fst (Wallet_create ?E w)) \<and>
               snd (?wc w) = snd (Wallet_create ?E w)"
    by (simp add: split_beta)
  obtain r1 f1 where m1: "main ?E ?st = (r1, f1)"
    by (cases "main ?E ?st")
  obtain r2 f2 where m2: "main (?E\<lparr>Wallet_create := ?wc\<rparr>) ?st = (r2, f2)"
    by (cases "main (?E\<lparr>Wallet_create := ?wc\<rparr>) ?st")
  from only_seed_lines_show_seeds [where env = ?E and wc = ?wc and st = ?st, OF h] m1 m2
  have eq: "r2 = r1" "map redact (stdout f2) = map redact (stdout f1)"
    by simp_all
  have "case main ?E ?st of (result1, final1) \<Rightarrow>
          [Lit ''   Seed: '', Fmt (PyStr ''sEdOwnerSecret'')] \<in> set (stdout final1) \<and>
          [Lit (CROSS_MARK @ '' Simulation failed - could not fund owner wallet'')]
            \<in> set (stdout final1)"
    by (simp add: run_defs glyph_defs)
  with m1 have s1: "[Lit ''   Seed: '', Fmt (PyStr ''sEdOwnerSecret'')] \<in> set (stdout f1)"
    "[Lit (CROSS_MARK @ '' Simulation failed - could not fund owner wallet'')]
            \<in> set (stdout f1)"
    by simp_all
  have "case main (?E\<lparr>Wallet_create := ?wc\<rparr>) ?st of (result2, final2) \<Rightarrow>
          [Lit ''   Seed: '', Fmt (PyStr ''sEdOtherSecret'')] \<in> set (stdout final2)"
    by (simp add: run_defs glyph_defs)
  with m2 have s2: "[Lit ''   Seed: '', Fmt (PyStr ''sEdOtherSecret'')] \<in> set (stdout f2)"
    by simp
  show ?thesis unfolding m1 m2 using eq s1 s2 by simp
qed

end
